theory Spec2Isabelle
  imports Complex_Main "HOL-Library.Extended_Nat"
begin

section \<open>Python values used by the speech-timing code\<close>

text \<open>
  Exceptions of the Python code are values: a function that can raise returns
  \<open>py_error + 'a\<close>, with \<open>Inl\<close> for the raised exception.
\<close>

datatype py_error =
    ValueError
  | ZeroDivisionError
  | KeyError
  | CalledProcessError int
  | OtherException string

text \<open>
  A narration text is a Python \<open>str\<close>: a list of Unicode code points, so that
  \<open>len\<close> counts code points (Korean syllables count one each).  Rate strings such as
  \<open>+15%\<close> are strings of Latin-1 characters.
\<close>

type_synonym pystr = "nat list"

definition u :: "string \<Rightarrow> pystr" where
  "u s = map of_char s"

text \<open>The code points for which \<open>str.isspace\<close> holds; \<open>str.strip()\<close> removes them.\<close>

definition py_isspace :: "nat \<Rightarrow> bool" where
  "py_isspace c \<longleftrightarrow>
     (9 \<le> c \<and> c \<le> 13) \<or> (28 \<le> c \<and> c \<le> 32) \<or> c = 133 \<or> c = 160 \<or> c = 5760 \<or>
     (8192 \<le> c \<and> c \<le> 8202) \<or> c = 8232 \<or> c = 8233 \<or> c = 8239 \<or> c = 8287 \<or> c = 12288"

definition strip :: "pystr \<Rightarrow> pystr" where
  "strip t = rev (dropWhile py_isspace (rev (dropWhile py_isspace t)))"

definition strip_str :: "string \<Rightarrow> string" where
  "strip_str s =
     rev (dropWhile (\<lambda>c. py_isspace (of_char c)) (rev (dropWhile (\<lambda>c. py_isspace (of_char c)) s)))"

text \<open>\<open>s.replace(c, "")\<close> for a one-character \<open>c\<close>.\<close>

definition remove_char :: "char \<Rightarrow> string \<Rightarrow> string" where
  "remove_char c s = filter (\<lambda>x. x \<noteq> c) s"

definition startswith :: "'a list \<Rightarrow> 'a list \<Rightarrow> bool" where
  "startswith s p \<longleftrightarrow> take (length p) s = p"

subsection \<open>Decimal integers: \<open>str(n)\<close> and \<open>int(s)\<close>\<close>

definition digit_char :: "nat \<Rightarrow> char" where
  "digit_char d = ''0123456789'' ! d"

definition is_digit :: "char \<Rightarrow> bool" where
  "is_digit c \<longleftrightarrow> 48 \<le> (of_char c :: nat) \<and> (of_char c :: nat) \<le> 57"

definition digit_val :: "char \<Rightarrow> nat" where
  "digit_val c = of_char c - 48"

fun str_nat :: "nat \<Rightarrow> string" where
  "str_nat n = (if n < 10 then [digit_char n] else str_nat (n div 10) @ [digit_char (n mod 10)])"

declare str_nat.simps [simp del]

definition str_int :: "int \<Rightarrow> string" where
  "str_int i = (if i < 0 then CHR ''-'' # str_nat (nat (- i)) else str_nat (nat i))"

definition digits_value :: "string \<Rightarrow> nat" where
  "digits_value ds = foldl (\<lambda>acc c. 10 * acc + digit_val c) 0 ds"

text \<open>
  The digit groups of a base-10 literal: digits, with single underscores allowed between
  two digits (\<open>1_000\<close>), never leading, trailing or doubled.
\<close>

fun digit_groups :: "string \<Rightarrow> bool" where
  "digit_groups [] = False"
| "digit_groups [c] = is_digit c"
| "digit_groups (c # d # cs) =
     (is_digit c \<and> (if d = CHR ''_'' then digit_groups cs else digit_groups (d # cs)))"

definition int_max_str_digits :: nat where
  "int_max_str_digits = 4300"

text \<open>
  \<open>int(s)\<close> for a string: surrounding whitespace is dropped, one sign is allowed, the
  rest must be digit groups; anything else raises \<open>ValueError\<close>, and so does a literal
  of more than \<open>int_max_str_digits\<close> digits (the interpreter's default limit).
\<close>

definition py_int :: "string \<Rightarrow> py_error + int" where
  "py_int s =
     (let t = strip_str s;
          neg = startswith t ''-'';
          body = (if startswith t ''+'' \<or> startswith t ''-'' then tl t else t);
          ds = remove_char CHR ''_'' body
      in if \<not> digit_groups body then Inl ValueError
         else if length ds > int_max_str_digits then Inl ValueError
         else Inr (if neg then - int (digits_value ds) else int (digits_value ds)))"

section \<open>Rate control and duration estimate\<close>

text \<open>
  \<open>SSML_RATE_THRESHOLDS\<close>: an ordered dictionary, iterated in insertion order; the last
  tier's \<open>max_chars\<close> is \<open>float('inf')\<close>.
\<close>

record tier_config =
  max_chars :: enat
  tier_rate :: string

definition SSML_RATE_THRESHOLDS :: "(string \<times> tier_config) list" where
  "SSML_RATE_THRESHOLDS =
     [(''short'',      \<lparr>max_chars = enat 50,  tier_rate = ''+0%''\<rparr>),
      (''medium'',     \<lparr>max_chars = enat 150, tier_rate = ''+10%''\<rparr>),
      (''long'',       \<lparr>max_chars = enat 300, tier_rate = ''+15%''\<rparr>),
      (''very_long'',  \<lparr>max_chars = enat 500, tier_rate = ''+20%''\<rparr>),
      (''extra_long'', \<lparr>max_chars = \<infinity>,       tier_rate = ''+25%''\<rparr>)]"

definition TIKTOK_MAX_DURATION :: rat where
  "TIKTOK_MAX_DURATION = 55"

definition TIKTOK_COMPRESS_RATE :: string where
  "TIKTOK_COMPRESS_RATE = ''+15%''"

text \<open>
  \<open>estimate_reading_time(text, chars_per_second=5.0)\<close>.  Seconds are Python floats; the
  model computes with exact rationals.
\<close>

definition estimate_reading_time :: "pystr \<Rightarrow> rat \<Rightarrow> py_error + rat" where
  "estimate_reading_time t chars_per_second =
     (if t = [] then Inr 0
      else if chars_per_second = 0 then Inl ZeroDivisionError
      else Inr (of_nat (length (strip t)) / chars_per_second))"

definition should_compress_audio :: "pystr \<Rightarrow> rat \<Rightarrow> py_error + (bool \<times> string)" where
  "should_compress_audio total_text target_max =
     (case estimate_reading_time total_text 5 of
        Inl e \<Rightarrow> Inl e
      | Inr estimated \<Rightarrow>
          if estimated > target_max then Inr (True, TIKTOK_COMPRESS_RATE)
          else Inr (False, ''+0%''))"

text \<open>
  The loop of \<open>_calculate_dynamic_rate\<close> over the tiers: the first tier whose
  \<open>max_chars\<close> is not below the text length gives the bonus, \<open>0\<close> when none matches.
\<close>

fun tier_loop :: "(string \<times> tier_config) list \<Rightarrow> nat \<Rightarrow> py_error + int" where
  "tier_loop [] text_length = Inr 0"
| "tier_loop ((tier_name, config) # rest) text_length =
     (if enat text_length \<le> max_chars config
      then py_int (remove_char CHR ''+'' (remove_char CHR ''%'' (tier_rate config)))
      else tier_loop rest text_length)"

definition parse_base_rate :: "string \<Rightarrow> py_error + int" where
  "parse_base_rate base_rate =
     (let base_rate_clean = remove_char CHR ''%'' base_rate
      in if startswith base_rate_clean ''+'' then py_int (tl base_rate_clean)
         else if startswith base_rate_clean ''-'' then py_int base_rate_clean
         else if base_rate_clean \<noteq> [] then py_int base_rate_clean
         else Inr 0)"

definition format_rate :: "int \<Rightarrow> string" where
  "format_rate final_rate_value =
     (if final_rate_value \<ge> 0 then ''+'' @ str_int final_rate_value @ ''%''
      else str_int final_rate_value @ ''%'')"

text \<open>The five length tiers as a table: the bonus for a text of \<open>n\<close> characters.\<close>

definition tier_bonus :: "nat \<Rightarrow> int" where
  "tier_bonus n =
     (if n \<le> 50 then 0 else if n \<le> 150 then 10 else if n \<le> 300 then 15
      else if n \<le> 500 then 20 else 25)"

definition calculate_dynamic_rate :: "pystr \<Rightarrow> string \<Rightarrow> py_error + string" where
  "calculate_dynamic_rate t base_rate =
     (let text_length = length (strip t)
      in case tier_loop SSML_RATE_THRESHOLDS text_length of
           Inl e \<Rightarrow> Inl e
         | Inr dynamic_rate_value \<Rightarrow>
             (case parse_base_rate base_rate of
                Inl e \<Rightarrow> Inl e
              | Inr base_rate_value \<Rightarrow>
                  Inr (format_rate (max (- 50) (min 50 (base_rate_value + dynamic_rate_value))))))"

section \<open>Speech synthesis and duration measurement\<close>

text \<open>
  \<open>round(x)\<close> and \<open>round(x, ndigits)\<close>: to the nearest, ties to the even neighbour.
\<close>

definition py_round0 :: "rat \<Rightarrow> int" where
  "py_round0 x =
     (let f = \<lfloor>x\<rfloor>; r = x - of_int f
      in if r < 1 / 2 then f else if r > 1 / 2 then f + 1 else if even f then f else f + 1)"

definition py_round :: "rat \<Rightarrow> nat \<Rightarrow> rat" where
  "py_round x ndigits = of_int (py_round0 (x * 10 ^ ndigits)) / 10 ^ ndigits"

text \<open>
  A pydub \<open>AudioSegment\<close> is the sequence of the pieces it was concatenated from, each
  with its length in milliseconds: speech synthesized in memory by \<open>_tts_to_segment\<close>,
  audio decoded from a file, or \<open>AudioSegment.silent\<close>.  \<open>+\<close> is concatenation and
  \<open>len\<close> the sum of the lengths.
\<close>

datatype piece =
    Speech pystr string string nat
  | FromFile string nat
  | Silent nat

type_synonym audio_segment = "piece list"

fun piece_ms :: "piece \<Rightarrow> nat" where
  "piece_ms (Speech t voice rate ms) = ms"
| "piece_ms (FromFile file_path ms) = ms"
| "piece_ms (Silent ms) = ms"

definition audio_len :: "audio_segment \<Rightarrow> nat" where
  "audio_len a = sum_list (map piece_ms a)"

datatype azure_reason = SynthesizingAudioCompleted | Canceled | OtherReason

text \<open>
  What the audio code asks of its host; each field answers for the moment the code asks.
  \<^item> \<open>file_exists\<close>: \<open>os.path.exists\<close>;
  \<^item> \<open>mutagen_length\<close>: \<open>MP3(path).info.length\<close>, or the exception it raises;
  \<^item> \<open>pydub_from_file\<close>: the length in milliseconds of
    \<open>AudioSegment.from_file(path, format="mp3")\<close>, or the exception it raises;
  \<^item> \<open>azure_speak\<close>: the result reason of \<open>speak_ssml_async(ssml).get()\<close> for a text, voice,
    prosody rate and output file, or the exception raised while configuring or calling
    the SDK;
  \<^item> \<open>asyncio_run_error\<close>: the exception \<open>asyncio.run\<close> raises before running its
    coroutine, if any;
  \<^item> \<open>edge_save\<close>: \<open>edge_tts.Communicate(text, voice, rate=rate).save(path)\<close>;
  \<^item> \<open>edge_segment\<close>: the same into a temporary file that is decoded and removed; the
    decoded length, or the exception raised on the way;
  \<^item> \<open>vietnamese_filter\<close>: lines 693-708 of \<open>generate_azure_tts\<close>, whose regular
    expressions are not modelled: \<open>Some\<close> of the text that goes on to synthesis (the text
    itself when no Vietnamese letter is found, the cleaned text when it is longer than
    10 characters), \<open>None\<close> when the call gives up and returns \<open>0.0\<close>;
  \<^item> \<open>export_file\<close>: \<open>AudioSegment.export(path, format="mp3")\<close>.
\<close>

record tts_host =
  file_exists :: "string \<Rightarrow> bool"
  MUTAGEN_AVAILABLE :: bool
  mutagen_length :: "string \<Rightarrow> py_error + rat"
  pydub_from_file :: "string \<Rightarrow> py_error + nat"
  AZURE_TTS_AVAILABLE :: bool
  AZURE_SPEECH_KEY :: string
  EDGE_TTS_AVAILABLE :: bool
  azure_speak :: "pystr \<Rightarrow> string \<Rightarrow> string \<Rightarrow> string \<Rightarrow> py_error + azure_reason"
  asyncio_run_error :: "py_error option"
  edge_save :: "pystr \<Rightarrow> string \<Rightarrow> string \<Rightarrow> string \<Rightarrow> py_error + unit"
  edge_segment :: "pystr \<Rightarrow> string \<Rightarrow> string \<Rightarrow> py_error + nat"
  vietnamese_filter :: "pystr \<Rightarrow> pystr option"
  export_file :: "audio_segment \<Rightarrow> string \<Rightarrow> py_error + unit"

definition QUIZ_SILENCE_MS :: nat where
  "QUIZ_SILENCE_MS = 4000"

definition get_audio_duration :: "tts_host \<Rightarrow> string \<Rightarrow> rat" where
  "get_audio_duration H file_path =
     (if \<not> file_exists H file_path then 0
      else if MUTAGEN_AVAILABLE H
      then (case mutagen_length H file_path of Inr l \<Rightarrow> l | Inl e \<Rightarrow> 0)
      else (case pydub_from_file H file_path of Inr ms \<Rightarrow> of_nat ms / 1000 | Inl e \<Rightarrow> 0))"

definition tts_to_file :: "tts_host \<Rightarrow> pystr \<Rightarrow> string \<Rightarrow> string \<Rightarrow> string \<Rightarrow> rat" where
  "tts_to_file H t voice rate output_path =
     (if t = [] \<or> strip t = [] then 0
      else (case edge_save H (strip t) voice rate output_path of
              Inr _ \<Rightarrow> get_audio_duration H output_path
            | Inl e \<Rightarrow> 0))"

definition fallback_edge_tts_sync ::
  "tts_host \<Rightarrow> pystr \<Rightarrow> string \<Rightarrow> string \<Rightarrow> string \<Rightarrow> rat" where
  "fallback_edge_tts_sync H t voice_name output_path rate =
     (if \<not> EDGE_TTS_AVAILABLE H then 0
      else (case asyncio_run_error H of
              Some e \<Rightarrow> 0
            | None \<Rightarrow>
                (let ignored = tts_to_file H t voice_name rate output_path
                 in get_audio_duration H output_path)))"

text \<open>
  The rate a synthesis call uses (\<open>_build_ssml\<close>, and the same expression before each
  fallback): the dynamic rate of the text when \<open>use_dynamic_rate\<close> holds, else the rate
  given.  \<open>ssml_rate\<close> is the prosody attribute \<open>_build_ssml\<close> writes.
\<close>

definition synthesis_rate :: "pystr \<Rightarrow> string \<Rightarrow> bool \<Rightarrow> py_error + string" where
  "synthesis_rate t rate use_dynamic_rate =
     (if use_dynamic_rate then calculate_dynamic_rate t rate else Inr rate)"

definition ssml_rate :: "string \<Rightarrow> string" where
  "ssml_rate final_rate =
     (let rate_value = remove_char CHR ''%'' final_rate
      in (if \<not> startswith rate_value ''+'' \<and> \<not> startswith rate_value ''-''
          then ''+'' @ rate_value else rate_value) @ ''%'')"

text \<open>
  A synthesis request: the text, voice and rate handed to the engines (the primary engine
  and its fallback get the same three).  The builders collect the requests they make.
\<close>

record tts_request =
  req_text :: pystr
  req_voice :: string
  req_rate :: string

definition generate_azure_tts ::
  "tts_host \<Rightarrow> pystr \<Rightarrow> string \<Rightarrow> string \<Rightarrow> string \<Rightarrow> bool \<Rightarrow> py_error + (rat \<times> tts_request list)" where
  "generate_azure_tts H t voice_name output_path rate use_dynamic_rate =
     (if t = [] \<or> strip t = [] then Inr (0, [])
      else (case vietnamese_filter H t of
              None \<Rightarrow> Inr (0, [])
            | Some t' \<Rightarrow>
                (case synthesis_rate t' rate use_dynamic_rate of
                   Inl e \<Rightarrow> Inl e
                 | Inr final_rate \<Rightarrow>
                     (let req = \<lparr>req_text = t', req_voice = voice_name, req_rate = final_rate\<rparr>
                      in if \<not> AZURE_TTS_AVAILABLE H \<or> AZURE_SPEECH_KEY H = []
                         then Inr (fallback_edge_tts_sync H t' voice_name output_path final_rate,
                                   [req])
                         else (case azure_speak H t' voice_name (ssml_rate final_rate) output_path of
                                 Inr SynthesizingAudioCompleted \<Rightarrow>
                                   Inr (get_audio_duration H output_path, [req])
                               | Inr Canceled \<Rightarrow>
                                   Inr (fallback_edge_tts_sync H t' voice_name output_path
                                          final_rate, [req])
                               | Inr OtherReason \<Rightarrow>
                                   Inr (fallback_edge_tts_sync H t' voice_name output_path
                                          final_rate, [req])
                               | Inl e \<Rightarrow>
                                   Inr (fallback_edge_tts_sync H t' voice_name output_path
                                          final_rate, [req]))))))"

definition tts_to_segment ::
  "tts_host \<Rightarrow> pystr \<Rightarrow> string \<Rightarrow> string \<Rightarrow> py_error + (audio_segment \<times> tts_request list)" where
  "tts_to_segment H t voice rate =
     (if t = [] \<or> strip t = [] then Inr ([], [])
      else (case edge_segment H (strip t) voice rate of
              Inl e \<Rightarrow> Inl e
            | Inr ms \<Rightarrow>
                Inr ([Speech (strip t) voice rate ms],
                     [\<lparr>req_text = strip t, req_voice = voice, req_rate = rate\<rparr>])))"

subsection \<open>Scripts and voices\<close>

text \<open>\<open>os.path.join\<close> of two components, with the POSIX separator.\<close>

definition path_join :: "string \<Rightarrow> string \<Rightarrow> string" where
  "path_join a b =
     (if startswith b ''/'' then b
      else if a = [] \<or> last a = CHR ''/'' then a @ b
      else a @ ''/'' @ b)"

text \<open>
  A dictionary with string values is an association list; \<open>d.get(k, default)\<close> is
  \<open>get_or\<close>.  \<open>" ".join(parts)\<close> is \<open>join\<close>.
\<close>

type_synonym pydict = "(string \<times> pystr) list"

definition get_or :: "pydict \<Rightarrow> string \<Rightarrow> pystr \<Rightarrow> pystr" where
  "get_or d k dflt = (case map_of d k of Some v \<Rightarrow> v | None \<Rightarrow> dflt)"

fun join :: "pystr \<Rightarrow> pystr list \<Rightarrow> pystr" where
  "join sep [] = []"
| "join sep [x] = x"
| "join sep (x # y # ys) = x @ sep @ join sep (y # ys)"

record voice_cfg =
  cfg_voice :: string
  cfg_rate :: string
  cfg_role :: string

definition VOICE_CFG :: "(string \<times> voice_cfg) list" where
  "VOICE_CFG =
     [(''video_1'', \<lparr>cfg_voice = ''ko-KR-SunHiNeural'', cfg_rate = ''-10%'', cfg_role = ''news''\<rparr>),
      (''video_2'', \<lparr>cfg_voice = ''ko-KR-InJoonNeural'', cfg_rate = ''+0%'', cfg_role = ''teaching''\<rparr>),
      (''video_3'', \<lparr>cfg_voice = ''ko-KR-InJoonNeural'', cfg_rate = ''+0%'', cfg_role = ''exam''\<rparr>),
      (''video_4'', \<lparr>cfg_voice = ''ko-KR-InJoonNeural'', cfg_rate = ''+0%'', cfg_role = ''exam''\<rparr>),
      (''video_5'', \<lparr>cfg_voice = ''ko-KR-JiMinNeural'', cfg_rate = ''+0%'', cfg_role = ''analysis''\<rparr>)]"

definition voice_cfg_of :: "string \<Rightarrow> py_error + voice_cfg" where
  "voice_cfg_of video_key =
     (case map_of VOICE_CFG video_key of Some cfg \<Rightarrow> Inr cfg | None \<Rightarrow> Inl KeyError)"

definition AZURE_VOICE_CONFIG :: "(string \<times> string) list" where
  "AZURE_VOICE_CONFIG =
     [(''host'', ''ko-KR-SunHiNeural''), (''news'', ''ko-KR-SunHiNeural''),
      (''exam'', ''ko-KR-InJoonNeural''), (''analysis'', ''ko-KR-JiMinNeural''),
      (''teaching'', ''ko-KR-InJoonNeural'')]"

text \<open>
  The state a builder threads through its steps: the audio assembled so far, the running
  sum of durations, and the synthesis requests and file exports made so far.
\<close>

record asm_state =
  combined_audio :: audio_segment
  total_duration :: rat
  requests :: "tts_request list"
  exports :: "(string \<times> audio_segment) list"

definition asm_init :: asm_state where
  "asm_init = \<lparr>combined_audio = [], total_duration = 0, requests = [], exports = []\<rparr>"

text \<open>
  The opening block of a short-form builder (lines 1458-1475, and again 1766-1784): the
  line is synthesized at the base rate with the dynamic rate off; when the measured
  duration is positive it is recorded, and the file and a pause of 300 ms join the
  combined audio.  The result is the recorded duration, if any.
\<close>

definition opening_step ::
  "tts_host \<Rightarrow> string \<Rightarrow> string \<Rightarrow> pystr \<Rightarrow> string \<Rightarrow> asm_state \<Rightarrow> py_error + (rat option \<times> asm_state)" where
  "opening_step H voice_name base_rate opening_ment opening_path st =
     (if opening_ment = [] then Inr (None, st)
      else (case generate_azure_tts H opening_ment voice_name opening_path base_rate False of
              Inl e \<Rightarrow> Inl e
            | Inr (duration, reqs) \<Rightarrow>
                (let st1 = st\<lparr>requests := requests st @ reqs\<rparr>
                 in if duration > 0
                    then (let st2 = st1\<lparr>total_duration := total_duration st1 + duration\<rparr>
                          in if file_exists H opening_path
                             then (case pydub_from_file H opening_path of
                                     Inl e \<Rightarrow> Inl e
                                   | Inr ms \<Rightarrow>
                                       Inr (Some duration,
                                            st2\<lparr>combined_audio := combined_audio st2
                                                   @ [FromFile opening_path ms] @ [Silent 300],
                                                 total_duration := total_duration st2 + 3 / 10\<rparr>))
                             else Inr (Some duration, st2))
                    else Inr (None, st1))))"

text \<open>The closing block (lines 1509-1525, and again 1844-1861).\<close>

definition closing_step ::
  "tts_host \<Rightarrow> string \<Rightarrow> string \<Rightarrow> pystr \<Rightarrow> string \<Rightarrow> asm_state \<Rightarrow> py_error + (rat option \<times> asm_state)" where
  "closing_step H voice_name base_rate closing_ment closing_path st =
     (if closing_ment = [] then Inr (None, st)
      else (case generate_azure_tts H closing_ment voice_name closing_path base_rate False of
              Inl e \<Rightarrow> Inl e
            | Inr (duration, reqs) \<Rightarrow>
                (let st1 = st\<lparr>requests := requests st @ reqs\<rparr>
                 in if duration > 0
                    then (if file_exists H closing_path
                          then (case pydub_from_file H closing_path of
                                  Inl e \<Rightarrow> Inl e
                                | Inr ms \<Rightarrow>
                                    Inr (Some duration,
                                         st1\<lparr>combined_audio := combined_audio st1
                                                @ [Silent 300] @ [FromFile closing_path ms],
                                              total_duration := total_duration st1
                                                + (duration + 3 / 10)\<rparr>))
                          else Inr (Some duration, st1))
                    else Inr (None, st1))))"

section \<open>Assembling the variants\<close>

subsection \<open>Video 1: opening, content segments, closing\<close>

text \<open>
  The script of video 1: its string-valued keys, and the list under \<open>segments\<close> (a
  missing key is the empty list).
\<close>

record news_script =
  news_strs :: pydict
  news_segments :: "pydict list"

record ment_result =
  ment_audio_path :: string
  ment_duration :: rat
  ment_text :: pystr

record segment_result =
  seg_ko :: pystr
  seg_vi :: pystr
  seg_audio_path :: string
  seg_duration :: rat

record news_result =
  nr_opening :: "ment_result option"
  nr_segments :: "segment_result list"
  nr_closing :: "ment_result option"
  nr_total_duration :: rat
  nr_combined_audio :: "string option"
  nr_ssml_compressed :: "bool option"

definition closing_default :: pystr where
  "closing_default =
     [45796, 51020, 32, 50689, 49345, 50640, 49436, 32, 46608, 32, 47564, 45208, 50836, 33]"

definition space :: pystr where
  "space = [32]"

text \<open>The loop over the content segments (lines 1480-1504), \<open>idx\<close> from \<open>enumerate\<close>.\<close>

fun news_segments_loop ::
  "tts_host \<Rightarrow> string \<Rightarrow> string \<Rightarrow> string \<Rightarrow> nat \<Rightarrow> pydict list
     \<Rightarrow> asm_state \<times> segment_result list \<Rightarrow> py_error + (asm_state \<times> segment_result list)" where
  "news_segments_loop H assets_dir voice_name base_rate idx [] (st, out) = Inr (st, out)"
| "news_segments_loop H assets_dir voice_name base_rate idx (seg # rest) (st, out) =
     (let ko_text = get_or seg ''ko'' [];
          vi_text = get_or seg ''vi'' []
      in if ko_text = []
         then news_segments_loop H assets_dir voice_name base_rate (idx + 1) rest (st, out)
         else (let seg_filename = ''v1_seg_'' @ str_nat idx @ ''.mp3'';
                   seg_path = path_join assets_dir seg_filename
               in case generate_azure_tts H ko_text voice_name seg_path base_rate True of
                    Inl e \<Rightarrow> Inl e
                  | Inr (duration, reqs) \<Rightarrow>
                      (let st1 = st\<lparr>requests := requests st @ reqs\<rparr>
                       in if duration > 0
                          then (let out' = out @ [\<lparr>seg_ko = ko_text, seg_vi = vi_text,
                                                     seg_audio_path = ''/assets/'' @ seg_filename,
                                                     seg_duration = py_round duration 3\<rparr>];
                                    st2 = st1\<lparr>total_duration := total_duration st1 + duration\<rparr>
                                in if file_exists H seg_path
                                   then (case pydub_from_file H seg_path of
                                           Inl e \<Rightarrow> Inl e
                                         | Inr ms \<Rightarrow>
                                             news_segments_loop H assets_dir voice_name base_rate
                                               (idx + 1) rest
                                               (st2\<lparr>combined_audio := combined_audio st2
                                                       @ [FromFile seg_path ms]\<rparr>, out'))
                                   else news_segments_loop H assets_dir voice_name base_rate
                                          (idx + 1) rest (st2, out'))
                          else news_segments_loop H assets_dir voice_name base_rate
                                 (idx + 1) rest (st1, out))))"

definition news_base_rate :: "pystr \<Rightarrow> string \<Rightarrow> py_error + (bool \<times> string)" where
  "news_base_rate total_text configured_rate =
     (case should_compress_audio total_text TIKTOK_MAX_DURATION of
        Inl e \<Rightarrow> Inl e
      | Inr (should_compress, compress_rate) \<Rightarrow>
          Inr (should_compress, if should_compress then compress_rate else configured_rate))"

text \<open>
  \<open>_build_video1_news(script, assets_dir)\<close>.  The result is the dictionary returned,
  together with the final builder state (the requests made and the files exported).
\<close>

definition build_video1_news ::
  "tts_host \<Rightarrow> news_script \<Rightarrow> string \<Rightarrow> py_error + (news_result \<times> asm_state)" where
  "build_video1_news H script assets_dir =
     (case voice_cfg_of ''video_1'' of
        Inl e \<Rightarrow> Inl e
      | Inr cfg \<Rightarrow>
     (let opening_ment = get_or (news_strs script) ''opening_ment'' [];
          closing_ment = get_or (news_strs script) ''closing_ment'' closing_default;
          audio_text = get_or (news_strs script) ''audio_text'' [];
          segments = (if news_segments script = [] \<and> audio_text \<noteq> []
                      then [[(''ko'', audio_text), (''vi'', [])]]
                      else news_segments script)
      in if segments = [] \<and> opening_ment = []
         then Inr (\<lparr>nr_opening = None, nr_segments = [], nr_closing = None,
                     nr_total_duration = 0, nr_combined_audio = None,
                     nr_ssml_compressed = None\<rparr>, asm_init)
         else (let total_text = opening_ment @ space
                       @ join space (map (\<lambda>s. get_or s ''ko'' []) segments) @ space @ closing_ment
               in case news_base_rate total_text (cfg_rate cfg) of
                    Inl e \<Rightarrow> Inl e
                  | Inr (should_compress, base_rate) \<Rightarrow>
               (case opening_step H (cfg_voice cfg) base_rate opening_ment
                       (path_join assets_dir ''v1_opening.mp3'') asm_init of
                  Inl e \<Rightarrow> Inl e
                | Inr (opening_duration, st1) \<Rightarrow>
               (case news_segments_loop H assets_dir (cfg_voice cfg) base_rate 0 segments
                       (st1, []) of
                  Inl e \<Rightarrow> Inl e
                | Inr (st2, segs_out) \<Rightarrow>
               (case closing_step H (cfg_voice cfg) base_rate closing_ment
                       (path_join assets_dir ''v1_closing.mp3'') st2 of
                  Inl e \<Rightarrow> Inl e
                | Inr (closing_duration, st3) \<Rightarrow>
               (let combined_path = path_join assets_dir ''v1_news.mp3'';
                    result = \<lparr>nr_opening = map_option (\<lambda>d. \<lparr>ment_audio_path = ''/assets/v1_opening.mp3'',
                                   ment_duration = py_round d 3, ment_text = opening_ment\<rparr>)
                                   opening_duration,
                              nr_segments = segs_out,
                              nr_closing = map_option (\<lambda>d. \<lparr>ment_audio_path = ''/assets/v1_closing.mp3'',
                                   ment_duration = py_round d 3, ment_text = closing_ment\<rparr>)
                                   closing_duration,
                              nr_total_duration = 0, nr_combined_audio = None,
                              nr_ssml_compressed = Some should_compress\<rparr>
                in if audio_len (combined_audio st3) > 0
                   then (case export_file H (combined_audio st3) combined_path of
                           Inl e \<Rightarrow> Inl e
                         | Inr _ \<Rightarrow>
                             (let actual_duration = get_audio_duration H combined_path
                              in Inr (result\<lparr>nr_total_duration := py_round actual_duration 3,
                                             nr_combined_audio := Some ''/assets/v1_news.mp3''\<rparr>,
                                      st3\<lparr>exports := exports st3
                                             @ [(combined_path, combined_audio st3)]\<rparr>)))
                   else Inr (result\<lparr>nr_total_duration := py_round (total_duration st3) 3\<rparr>,
                             st3))))))))"

subsection \<open>Videos 3 and 4: the quiz\<close>

record quiz_script =
  quiz_strs :: pydict
  options_ko :: "pystr list"
  options :: "pystr list"

record quiz_audio =
  qa_path :: string
  qa_duration :: rat
  qa_text :: "pystr option"

record quiz_result =
  opening_audio :: "quiz_audio option"
  question_audio :: "quiz_audio option"
  answer_audio :: "quiz_audio option"
  closing_audio :: "quiz_audio option"
  silence_duration :: rat
  qr_total_duration :: rat
  qr_combined_audio :: "string option"
  qr_ssml_compressed :: "bool option"

definition quiz_closing_default :: pystr where
  "quiz_closing_default =
     [45796, 51020, 32, 53300, 51592, 50640, 49436, 32, 46608, 32, 47564, 45208, 50836, 33]"

text \<open>The announcement of the answer, an f-string around \<open>correct\<close>.\<close>

definition answer_announce_of :: "pystr \<Rightarrow> pystr" where
  "answer_announce_of correct = [51221, 45813, 51008, 32] @ correct @ [51077, 45768, 45796, 46]"

text \<open>\<open>video_key.split("_")[1]\<close>, for a key that holds an underscore.\<close>

definition video_num_of :: "string \<Rightarrow> string" where
  "video_num_of video_key =
     takeWhile (\<lambda>c. c \<noteq> CHR ''_'') (tl (dropWhile (\<lambda>c. c \<noteq> CHR ''_'') video_key))"

text \<open>
  The question block and the answer block (lines 1789-1809 and 1821-1839): two texts
  synthesized in memory at the base rate, joined by a pause of 300 ms, exported to their
  own file, measured from that file, and appended to the combined audio.
\<close>

definition quiz_block ::
  "tts_host \<Rightarrow> string \<Rightarrow> string \<Rightarrow> pystr \<Rightarrow> pystr \<Rightarrow> string \<Rightarrow> asm_state \<Rightarrow> py_error + (rat \<times> asm_state)" where
  "quiz_block H voice_name base_rate first_text second_text block_path st =
     (case tts_to_segment H first_text voice_name base_rate of
        Inl e \<Rightarrow> Inl e
      | Inr (first_audio, reqs1) \<Rightarrow>
     (case tts_to_segment H second_text voice_name base_rate of
        Inl e \<Rightarrow> Inl e
      | Inr (second_audio, reqs2) \<Rightarrow>
     (let block_combined = first_audio @ [Silent 300] @ second_audio
      in case export_file H block_combined block_path of
           Inl e \<Rightarrow> Inl e
         | Inr _ \<Rightarrow>
             (let block_duration = get_audio_duration H block_path
              in Inr (block_duration,
                      st\<lparr>combined_audio := combined_audio st @ block_combined,
                         total_duration := total_duration st + block_duration,
                         requests := requests st @ reqs1 @ reqs2,
                         exports := exports st @ [(block_path, block_combined)]\<rparr>)))))"

definition build_quiz_audio ::
  "tts_host \<Rightarrow> quiz_script \<Rightarrow> string \<Rightarrow> string \<Rightarrow> py_error + (quiz_result \<times> asm_state)" where
  "build_quiz_audio H script assets_dir video_key =
     (case voice_cfg_of video_key of
        Inl e \<Rightarrow> Inl e
      | Inr cfg \<Rightarrow>
     (let video_num = video_num_of video_key;
          opening_ment = get_or (quiz_strs script) ''opening_ment'' [];
          closing_ment = get_or (quiz_strs script) ''closing_ment'' quiz_closing_default;
          question_ko = (if get_or (quiz_strs script) ''question_ko'' [] \<noteq> []
                         then get_or (quiz_strs script) ''question_ko'' []
                         else get_or (quiz_strs script) ''question'' []);
          opts = (if options_ko script \<noteq> [] then options_ko script else options script);
          correct = get_or (quiz_strs script) ''correct_answer'' [];
          explanation_ko = (if get_or (quiz_strs script) ''explanation_ko'' [] \<noteq> []
                            then get_or (quiz_strs script) ''explanation_ko'' []
                            else get_or (quiz_strs script) ''explanation'' []);
          empty_result = \<lparr>opening_audio = None, question_audio = None, answer_audio = None,
                           closing_audio = None,
                           silence_duration = of_nat QUIZ_SILENCE_MS / 1000,
                           qr_total_duration = 0, qr_combined_audio = None,
                           qr_ssml_compressed = None\<rparr>
      in if question_ko = [] then Inr (empty_result, asm_init)
         else (let total_text = opening_ment @ space @ question_ko @ space @ join space opts
                       @ space @ (answer_announce_of correct @ space) @ explanation_ko @ space
                       @ closing_ment
               in case news_base_rate total_text (cfg_rate cfg) of
                    Inl e \<Rightarrow> Inl e
                  | Inr (should_compress, base_rate) \<Rightarrow>
               (let opening_filename = ''v'' @ video_num @ ''_opening.mp3'';
                    q_filename = ''v'' @ video_num @ ''_question.mp3'';
                    a_filename = ''v'' @ video_num @ ''_answer.mp3'';
                    closing_filename = ''v'' @ video_num @ ''_closing.mp3'';
                    combined_filename = ''v'' @ video_num @ ''_''
                       @ (if video_num = ''3'' then ''vocab'' else ''grammar'') @ ''_quiz.mp3'';
                    combined_path = path_join assets_dir combined_filename
                in case opening_step H (cfg_voice cfg) base_rate opening_ment
                          (path_join assets_dir opening_filename) asm_init of
                     Inl e \<Rightarrow> Inl e
                   | Inr (opening_duration, st0) \<Rightarrow>
                (case quiz_block H (cfg_voice cfg) base_rate question_ko (join (space @ space) opts)
                        (path_join assets_dir q_filename) st0 of
                   Inl e \<Rightarrow> Inl e
                 | Inr (q_duration, st1) \<Rightarrow>
                (let st2 = st1\<lparr>combined_audio := combined_audio st1 @ [Silent QUIZ_SILENCE_MS],
                                total_duration := total_duration st1 + of_nat QUIZ_SILENCE_MS / 1000\<rparr>
                 in case quiz_block H (cfg_voice cfg) base_rate (answer_announce_of correct)
                           explanation_ko (path_join assets_dir a_filename) st2 of
                      Inl e \<Rightarrow> Inl e
                    | Inr (a_duration, st3) \<Rightarrow>
                (case closing_step H (cfg_voice cfg) base_rate closing_ment
                        (path_join assets_dir closing_filename) st3 of
                   Inl e \<Rightarrow> Inl e
                 | Inr (closing_duration, st4) \<Rightarrow>
                (case export_file H (combined_audio st4) combined_path of
                   Inl e \<Rightarrow> Inl e
                 | Inr _ \<Rightarrow>
                     (let actual_duration = get_audio_duration H combined_path
                      in Inr (empty_result
                               \<lparr>opening_audio := map_option (\<lambda>d. \<lparr>qa_path = ''/assets/'' @ opening_filename,
                                    qa_duration = py_round d 3, qa_text = Some opening_ment\<rparr>)
                                    opening_duration,
                                question_audio := Some \<lparr>qa_path = ''/assets/'' @ q_filename,
                                    qa_duration = py_round q_duration 3, qa_text = None\<rparr>,
                                answer_audio := Some \<lparr>qa_path = ''/assets/'' @ a_filename,
                                    qa_duration = py_round a_duration 3, qa_text = None\<rparr>,
                                closing_audio := map_option (\<lambda>d. \<lparr>qa_path = ''/assets/'' @ closing_filename,
                                    qa_duration = py_round d 3, qa_text = Some closing_ment\<rparr>)
                                    closing_duration,
                                qr_total_duration := py_round actual_duration 3,
                                qr_combined_audio := Some (''/assets/'' @ combined_filename),
                                qr_ssml_compressed := Some should_compress\<rparr>,
                              st4\<lparr>exports := exports st4
                                     @ [(combined_path, combined_audio st4)]\<rparr>))))))))))"

subsection \<open>Video 5: the long-form episode and its timestamps\<close>

text \<open>
  The script of video 5: each section is a dictionary with string values (\<open>None\<close> when
  the key is missing); the lists under \<open>essay.paragraphs\<close>, \<open>vocab.items\<close> and
  \<open>vocab.grammar_items\<close> are fields of their own, empty when missing;
  \<open>dd_other_keys\<close> tells whether the script has keys the builder does not read (such
  as \<open>meta\<close>).
\<close>

record deep_dive_script =
  dd_opening :: "pydict option"
  dd_news :: "pydict option"
  dd_transition :: "pydict option"
  dd_exam :: "pydict option"
  dd_essay :: "pydict option"
  dd_paragraphs :: "pydict list"
  dd_vocab :: "pydict option"
  dd_items :: "pydict list"
  dd_grammar_items :: "pydict list"
  dd_closing :: "pydict option"
  dd_other_keys :: bool

text \<open>\<open>script.get(name, {})\<close>.\<close>

definition section_of :: "pydict option \<Rightarrow> pydict" where
  "section_of d = (case d of None \<Rightarrow> [] | Some x \<Rightarrow> x)"

text \<open>\<open>[d[key] for key in keys if d.get(key)]\<close>.\<close>

definition nonempty_values :: "pydict \<Rightarrow> string list \<Rightarrow> pystr list" where
  "nonempty_values d keys = filter (\<lambda>v. v \<noteq> []) (map (\<lambda>k. get_or d k []) keys)"

definition get_section_label :: "pystr \<Rightarrow> pystr" where
  "get_section_label sec =
     (let labels =
        [(u ''opening'', [127916, 32, 73, 110, 116, 114, 111]),
         (u ''news'', [128240, 32, 84, 105, 110, 32, 116, 7913, 99]),
         (u ''transition'', [128260, 32, 67, 104, 117, 121, 7875, 110, 32, 116, 105, 7871, 112]),
         (u ''exam'', [128221, 32, 272, 7873, 32, 116, 104, 105, 32, 84, 79, 80, 73, 75, 32, 53, 52]),
         (u ''essay_intro'', [9997, 65039, 32, 86, 259, 110, 32, 109, 7851, 117]),
         (u ''vocab_intro'', [128218, 32, 84, 7915, 32, 118, 7921, 110, 103, 32, 38, 32, 78, 103,
                              7919, 32, 112, 104, 225, 112]),
         (u ''closing'', [128075, 32, 75, 7871, 116, 32, 116, 104, 250, 99])]
      in case filter (\<lambda>(k, l). startswith sec k) labels of
           [] \<Rightarrow> sec
         | (k, l) # rest \<Rightarrow> l)"

record deep_segment =
  ds_section :: pystr
  ds_ko :: pystr
  ds_vi :: pystr
  ds_audio_path :: string
  ds_duration :: rat

record timestamp =
  ts_section :: pystr
  start_sec :: rat
  ts_label :: pystr

text \<open>
  The variables \<open>process_segment\<close> shares with its enclosing function: the builder state,
  \<open>segment_idx\<close>, \<open>result_segments\<close> and \<open>timestamps\<close>.
\<close>

record deep_state = asm_state +
  segment_idx :: nat
  result_segments :: "deep_segment list"
  timestamps :: "timestamp list"

definition deep_init :: deep_state where
  "deep_init =
     \<lparr>combined_audio = [], total_duration = 0, requests = [], exports = [],
      segment_idx = 0, result_segments = [], timestamps = []\<rparr>"

text \<open>
  \<open>process_segment(section_name, ko_text, vi_text, voice, rate)\<close>;
  \<open>generate_azure_tts_async\<close> runs \<open>generate_azure_tts\<close> with the dynamic rate on.
\<close>

definition process_segment ::
  "tts_host \<Rightarrow> string \<Rightarrow> deep_state \<Rightarrow> pystr \<Rightarrow> pystr \<Rightarrow> pystr \<Rightarrow> string \<Rightarrow> string
     \<Rightarrow> py_error + deep_state" where
  "process_segment H assets_dir st section_name ko_text vi_text voice_name rate =
     (if ko_text = [] \<or> strip ko_text = [] then Inr st
      else (let seg_filename = ''deep_'' @ str_nat (segment_idx st) @ ''.mp3'';
                seg_path = path_join assets_dir seg_filename
            in case generate_azure_tts H ko_text voice_name seg_path rate True of
                 Inl e \<Rightarrow> Inl e
               | Inr (duration, reqs) \<Rightarrow>
                   (let st0 = st\<lparr>requests := requests st @ reqs\<rparr>
                    in if duration \<le> 0 then Inr st0
                       else (let st1 = st0\<lparr>result_segments := result_segments st0
                                            @ [\<lparr>ds_section = section_name, ds_ko = ko_text,
                                                 ds_vi = vi_text,
                                                 ds_audio_path = ''/assets/'' @ seg_filename,
                                                 ds_duration = py_round duration 3\<rparr>],
                                          timestamps := timestamps st0
                                            @ [\<lparr>ts_section = section_name,
                                                 start_sec = py_round (total_duration st0) 0,
                                                 ts_label = get_section_label section_name\<rparr>]\<rparr>;
                                 st2 = st1\<lparr>total_duration := total_duration st1 + duration\<rparr>
                             in if file_exists H seg_path
                                then (case pydub_from_file H seg_path of
                                        Inl e \<Rightarrow> Inl e
                                      | Inr ms \<Rightarrow>
                                          Inr (st2\<lparr>combined_audio := combined_audio st2
                                                    @ ([FromFile seg_path ms] @ [Silent 500]),
                                                  total_duration := total_duration st2 + 1 / 2,
                                                  segment_idx := segment_idx st2 + 1\<rparr>))
                                else Inr (st2\<lparr>segment_idx := segment_idx st2 + 1\<rparr>)))))"

text \<open>
  The calls of \<open>process_segment\<close> that the body of \<open>_build_video5_deep_dive\<close> makes, in
  order (lines 1972-2098): the arguments of each call depend on the script only.
\<close>

type_synonym segment_call = "pystr \<times> pystr \<times> pystr \<times> string \<times> string"

definition voice_of :: "string \<Rightarrow> string \<Rightarrow> string" where
  "voice_of k dflt = (case map_of AZURE_VOICE_CONFIG k of Some v \<Rightarrow> v | None \<Rightarrow> dflt)"

definition opening_calls :: "deep_dive_script \<Rightarrow> segment_call list" where
  "opening_calls script =
     (let opening = section_of (dd_opening script)
      in if opening \<noteq> []
         then [(u ''opening'',
                strip (get_or opening ''hook_ko'' [] @ space @ get_or opening ''intro_ko'' []),
                strip (get_or opening ''hook_vi'' [] @ space @ get_or opening ''intro_vi'' []),
                voice_of ''host'' ''ko-KR-SunHiNeural'', ''-5%'')]
         else [])"

definition news_calls :: "deep_dive_script \<Rightarrow> segment_call list" where
  "news_calls script =
     (let news = section_of (dd_news script)
      in if news \<noteq> []
         then [(u ''news'',
                join space (nonempty_values news [''transition_ko'', ''content_ko'', ''analysis_ko'']),
                join space (nonempty_values news [''transition_vi'', ''content_vi'', ''analysis_vi'']),
                voice_of ''news'' ''ko-KR-SunHiNeural'', ''+0%'')]
         else [])"

definition transition_calls :: "deep_dive_script \<Rightarrow> segment_call list" where
  "transition_calls script =
     (let transition = section_of (dd_transition script)
      in if transition \<noteq> []
         then [(u ''transition'', get_or transition ''bridge_ko'' [],
                get_or transition ''bridge_vi'' [],
                voice_of ''host'' ''ko-KR-SunHiNeural'', ''+0%'')]
         else [])"

definition exam_calls :: "deep_dive_script \<Rightarrow> segment_call list" where
  "exam_calls script =
     (let exam = section_of (dd_exam script)
      in if exam \<noteq> []
         then [(u ''exam'',
                join space (nonempty_values exam [''intro_ko'', ''question_ko'', ''tips_ko'']),
                join space (nonempty_values exam [''intro_vi'', ''question_vi'', ''tips_vi'']),
                voice_of ''exam'' ''ko-KR-InJoonNeural'', ''-5%'')]
         else [])"

fun paragraph_calls :: "nat \<Rightarrow> pydict list \<Rightarrow> segment_call list" where
  "paragraph_calls idx [] = []"
| "paragraph_calls idx (para # rest) =
     (let label = get_or para ''label'' (u ''Para '' @ u (str_nat (idx + 1)));
          combined_ko = strip (get_or para ''ko'' [] @ space @ get_or para ''analysis_ko'' []);
          combined_vi = strip (get_or para ''vi'' [] @ space @ get_or para ''analysis_vi'' [])
      in (if combined_ko \<noteq> []
          then [(u ''essay_'' @ label, combined_ko, combined_vi,
                 voice_of ''analysis'' ''ko-KR-JiMinNeural'', ''+0%'')]
          else [])
         @ paragraph_calls (idx + 1) rest)"

definition essay_calls :: "deep_dive_script \<Rightarrow> segment_call list" where
  "essay_calls script =
     (let essay = section_of (dd_essay script)
      in if essay \<noteq> [] \<or> dd_paragraphs script \<noteq> []
         then (if get_or essay ''intro_ko'' [] \<noteq> []
               then [(u ''essay_intro'', get_or essay ''intro_ko'' [], get_or essay ''intro_vi'' [],
                      voice_of ''analysis'' ''ko-KR-JiMinNeural'', ''+0%'')]
               else [])
              @ paragraph_calls 0 (dd_paragraphs script)
         else [])"

definition item_call :: "string \<Rightarrow> string \<Rightarrow> pydict \<Rightarrow> segment_call list" where
  "item_call tag name_key item =
     (let word = get_or item name_key [];
          combined_ko = strip (word @ u ''. '' @ get_or item ''explanation_ko'' [] @ space
                               @ get_or item ''example_ko'' []);
          combined_vi = strip (get_or item ''meaning_vi'' [] @ space @ get_or item ''example_vi'' [])
      in if combined_ko \<noteq> []
         then [(u tag @ word, combined_ko, combined_vi,
                voice_of ''analysis'' ''ko-KR-JiMinNeural'', ''+0%'')]
         else [])"

definition vocab_calls :: "deep_dive_script \<Rightarrow> segment_call list" where
  "vocab_calls script =
     (let vocab = section_of (dd_vocab script)
      in if vocab \<noteq> [] \<or> dd_items script \<noteq> [] \<or> dd_grammar_items script \<noteq> []
         then (if get_or vocab ''intro_ko'' [] \<noteq> []
               then [(u ''vocab_intro'', get_or vocab ''intro_ko'' [], get_or vocab ''intro_vi'' [],
                      voice_of ''analysis'' ''ko-KR-JiMinNeural'', ''+0%'')]
               else [])
              @ concat (map (item_call ''vocab_'' ''word'') (dd_items script))
              @ concat (map (item_call ''grammar_'' ''point'') (dd_grammar_items script))
         else [])"

definition closing_calls :: "deep_dive_script \<Rightarrow> segment_call list" where
  "closing_calls script =
     (let closing = section_of (dd_closing script)
      in if closing \<noteq> []
         then [(u ''closing'',
                join space (nonempty_values closing [''summary_ko'', ''cta_ko'', ''outro_ko'']),
                join space (nonempty_values closing [''summary_vi'', ''cta_vi'', ''outro_vi'']),
                voice_of ''host'' ''ko-KR-SunHiNeural'', ''+0%'')]
         else [])"

definition deep_dive_calls :: "deep_dive_script \<Rightarrow> segment_call list" where
  "deep_dive_calls script =
     opening_calls script @ news_calls script @ transition_calls script @ exam_calls script
     @ essay_calls script @ vocab_calls script @ closing_calls script"

fun process_segments ::
  "tts_host \<Rightarrow> string \<Rightarrow> segment_call list \<Rightarrow> deep_state \<Rightarrow> py_error + deep_state" where
  "process_segments H assets_dir [] st = Inr st"
| "process_segments H assets_dir ((section_name, ko_text, vi_text, voice_name, rate) # rest) st =
     (case process_segment H assets_dir st section_name ko_text vi_text voice_name rate of
        Inl e \<Rightarrow> Inl e
      | Inr st' \<Rightarrow> process_segments H assets_dir rest st')"

record deep_dive_result =
  dr_segments :: "deep_segment list"
  dr_total_duration :: rat
  dr_combined_audio :: "string option"
  dr_timestamps :: "timestamp list"

definition script_is_empty :: "deep_dive_script \<Rightarrow> bool" where
  "script_is_empty script \<longleftrightarrow>
     dd_opening script = None \<and> dd_news script = None \<and> dd_transition script = None
     \<and> dd_exam script = None \<and> dd_essay script = None \<and> dd_paragraphs script = []
     \<and> dd_vocab script = None \<and> dd_items script = [] \<and> dd_grammar_items script = []
     \<and> dd_closing script = None \<and> \<not> dd_other_keys script"

definition build_video5_deep_dive ::
  "tts_host \<Rightarrow> deep_dive_script \<Rightarrow> string \<Rightarrow> py_error + (deep_dive_result \<times> deep_state)" where
  "build_video5_deep_dive H script assets_dir =
     (if script_is_empty script
      then Inr (\<lparr>dr_segments = [], dr_total_duration = 0, dr_combined_audio = None,
                  dr_timestamps = []\<rparr>, deep_init)
      else (case process_segments H assets_dir (deep_dive_calls script) deep_init of
              Inl e \<Rightarrow> Inl e
            | Inr st \<Rightarrow>
                (let combined_path = path_join assets_dir ''v5_deep_dive.mp3'';
                     result = \<lparr>dr_segments = result_segments st,
                               dr_total_duration = py_round (total_duration st) 3,
                               dr_combined_audio = Some ''/assets/v5_deep_dive.mp3'',
                               dr_timestamps = timestamps st\<rparr>
                 in if audio_len (combined_audio st) > 0
                    then (case export_file H (combined_audio st) combined_path of
                            Inl e \<Rightarrow> Inl e
                          | Inr _ \<Rightarrow>
                              Inr (result,
                                   st\<lparr>exports := exports st
                                         @ [(combined_path, combined_audio st)]\<rparr>))
                    else Inr (result, st))))"

subsection \<open>Video 2: opening, parts, closing\<close>











subsection \<open>The texts and the requests of a variant\<close>













text \<open>
  The text a call of \<open>generate_azure_tts\<close> hands to the engines (lines 688-708): none for
  an empty or blank text, and else what the filter for Vietnamese leaves, if anything.
\<close>

definition synthesis_input :: "tts_host \<Rightarrow> pystr \<Rightarrow> pystr option" where
  "synthesis_input H t = (if t = [] \<or> strip t = [] then None else vietnamese_filter H t)"



section \<open>Example hosts and scripts\<close>

text \<open>
  A host on which everything works: the primary engine completes every request, every
  file exists, and the duration metadata of each file is given by a table (2 seconds for
  files not listed).
\<close>

definition working_host :: "(string \<Rightarrow> rat) \<Rightarrow> tts_host" where
  "working_host lengths =
     \<lparr>file_exists = (\<lambda>p. True),
      MUTAGEN_AVAILABLE = True,
      mutagen_length = (\<lambda>p. Inr (lengths p)),
      pydub_from_file = (\<lambda>p. Inr 2000),
      AZURE_TTS_AVAILABLE = True,
      AZURE_SPEECH_KEY = ''key'',
      EDGE_TTS_AVAILABLE = True,
      azure_speak = (\<lambda>t voice_name rate output_path. Inr SynthesizingAudioCompleted),
      asyncio_run_error = None,
      edge_save = (\<lambda>t voice_name rate output_path. Inr ()),
      edge_segment = (\<lambda>t voice_name rate. Inr 1500),
      vietnamese_filter = Some,
      export_file = (\<lambda>a output_path. Inr ())\<rparr>"

text \<open>The same host, except that reading the duration metadata of any file fails.\<close>

definition unreadable_host :: tts_host where
  "unreadable_host =
     (working_host (\<lambda>p. 2))\<lparr>mutagen_length := (\<lambda>p. Inl (OtherException ''HeaderNotFoundError''))\<rparr>"

text \<open>A greeting of five syllables, and a text of \<open>n\<close> syllables.\<close>

definition greeting :: pystr where
  "greeting = [50504, 45397, 54616, 49464, 50836]"

definition syllables :: "nat \<Rightarrow> pystr" where
  "syllables n = replicate n 44032"

text \<open>
  Deep-dive scripts with an opening only, and with an opening and a news section.
\<close>

definition deep_script_one :: deep_dive_script where
  "deep_script_one =
     \<lparr>dd_opening = Some [(''hook_ko'', greeting)], dd_news = None, dd_transition = None,
      dd_exam = None, dd_essay = None, dd_paragraphs = [], dd_vocab = None, dd_items = [],
      dd_grammar_items = [], dd_closing = None, dd_other_keys = False\<rparr>"

definition deep_script_two :: deep_dive_script where
  "deep_script_two = deep_script_one\<lparr>dd_news := Some [(''content_ko'', syllables 20)]\<rparr>"

text \<open>Duration tables for the segment files \<open>deep_0.mp3\<close>, \<open>deep_1.mp3\<close> and the export.\<close>

definition deep_lengths :: "rat \<Rightarrow> rat \<Rightarrow> rat \<Rightarrow> string \<Rightarrow> rat" where
  "deep_lengths d0 d1 d_export p =
     (if p = ''assets/deep_0.mp3'' then d0
      else if p = ''assets/deep_1.mp3'' then d1
      else if p = ''assets/v5_deep_dive.mp3'' then d_export
      else 2)"



text \<open>
  A quiz with an opening line, a question, two options, the answer \<open>2\<close> and an
  explanation of \<open>n\<close> syllables.
\<close>

definition quiz_script_of :: "nat \<Rightarrow> quiz_script" where
  "quiz_script_of n =
     \<lparr>quiz_strs = [(''opening_ment'', greeting), (''question_ko'', syllables 10),
                   (''correct_answer'', [50]), (''explanation_ko'', syllables n)],
      options_ko = [syllables 3, syllables 4],
      options = []\<rparr>"


section \<open>Render orchestration\<close>

text \<open>
  \<open>VIDEO_MANIFEST\<close>: the static, ordered list of render jobs.
\<close>

record manifest_entry =
  key :: string
  composition :: string
  prefix :: string
  audio :: string

definition VIDEO_MANIFEST :: "manifest_entry list" where
  "VIDEO_MANIFEST =
     [\<lparr>key = ''video_1_news'', composition = ''TikTok-NewsHealing'',
        prefix = ''V1_News'', audio = ''v1_news.mp3''\<rparr>,
      \<lparr>key = ''video_2_outline'', composition = ''TikTok-WritingCoach'',
        prefix = ''V2_Writing'', audio = ''v2_outline.mp3''\<rparr>,
      \<lparr>key = ''video_3_vocab_quiz'', composition = ''TikTok-VocabQuiz'',
        prefix = ''V3_Vocab'', audio = ''v3_vocab_quiz.mp3''\<rparr>,
      \<lparr>key = ''video_4_grammar_quiz'', composition = ''TikTok-GrammarQuiz'',
        prefix = ''V4_Grammar'', audio = ''v4_grammar_quiz.mp3''\<rparr>,
      \<lparr>key = ''video_5_deep_dive'', composition = ''YouTube-DeepDive'',
        prefix = ''V5_DeepDive'', audio = ''v5_deep_dive.mp3''\<rparr>]"

text \<open>
  What the render code asks of its host.  Each field answers for the moment the code asks:
  \<open>path_exists\<close> is \<open>os.path.exists\<close>, \<open>subprocess_run\<close> is
  \<open>subprocess.run(cmd, check=True, ...)\<close>, which returns, or raises
  \<open>CalledProcessError\<close> on a non-zero exit, or raises another exception.
\<close>

record render_host =
  abspath :: "string \<Rightarrow> string"
  path_exists :: "string \<Rightarrow> bool"
  is_windows :: bool
  subprocess_run :: "string list \<Rightarrow> py_error + unit"

definition render_cmd :: "render_host \<Rightarrow> string \<Rightarrow> string \<Rightarrow> string \<Rightarrow> string list" where
  "render_cmd H composition_id abs_output abs_json =
     [''npx'', ''remotion'', ''render'', composition_id, abs_output, ''--props'', abs_json,
      ''--concurrency=1'', (if is_windows H then ''--gl=angle'' else ''--gl=swangle''),
      ''--log=info'']"

definition render_single_video :: "render_host \<Rightarrow> string \<Rightarrow> string \<Rightarrow> string \<Rightarrow> bool" where
  "render_single_video H composition_id json_path output_path =
     (let abs_json = abspath H json_path;
          abs_output = abspath H output_path
      in if \<not> path_exists H abs_json then False
         else (case subprocess_run H (render_cmd H composition_id abs_output abs_json) of
                 Inr _ \<Rightarrow> (if path_exists H abs_output then True else False)
               | Inl (CalledProcessError returncode) \<Rightarrow> False
               | Inl e \<Rightarrow> False))"

definition video_path_of :: "manifest_entry \<Rightarrow> int \<Rightarrow> string" where
  "video_path_of entry timestamp =
     (let video_filename = prefix entry @ ''_'' @ str_int timestamp @ ''.mp4''
      in path_join (path_join ''topik-video'' ''public'') video_filename)"

text \<open>
  The loop of \<open>render_all_videos\<close> over the manifest, with its two accumulators
  \<open>rendered\<close> and \<open>failed\<close>.  The single-job renderer is a parameter that may return
  \<open>True\<close> or \<open>False\<close> or raise, so that the \<open>try\<close>/\<open>except Exception\<close> around
  the call is a branch of the model (\<open>py_error\<close> stands for the subclasses of
  \<open>Exception\<close>).
\<close>

fun render_loop ::
  "(string \<Rightarrow> string \<Rightarrow> string \<Rightarrow> py_error + bool) \<Rightarrow> string \<Rightarrow> int \<Rightarrow> manifest_entry list
     \<Rightarrow> string list \<times> string list \<Rightarrow> string list \<times> string list" where
  "render_loop render json_path timestamp [] (rendered, failed) = (rendered, failed)"
| "render_loop render json_path timestamp (entry # rest) (rendered, failed) =
     (let video_path = video_path_of entry timestamp
      in case render (composition entry) json_path video_path of
           Inr success \<Rightarrow>
             (if success
              then render_loop render json_path timestamp rest (rendered @ [video_path], failed)
              else render_loop render json_path timestamp rest
                     (rendered, failed @ [composition entry]))
         | Inl e \<Rightarrow>
             render_loop render json_path timestamp rest (rendered, failed @ [composition entry]))"

text \<open>
  \<open>render_all_videos(json_path, include_deep_dive)\<close>; \<open>timestamp\<close> is
  \<open>int(time.time())\<close>.  The function returns \<open>rendered\<close>; \<open>failed\<close> is only logged.
\<close>

definition render_all_videos :: "render_host \<Rightarrow> string \<Rightarrow> bool \<Rightarrow> int \<Rightarrow> string list" where
  "render_all_videos H json_path include_deep_dive timestamp =
     (let manifest_to_use = (if include_deep_dive then VIDEO_MANIFEST else take 4 VIDEO_MANIFEST)
      in fst (render_loop (\<lambda>c j p. Inr (render_single_video H c j p)) json_path timestamp
                manifest_to_use ([], [])))"

text \<open>
  A fault-injecting render engine for the five-job example: the second job exits with
  status 1 and the fourth job exits normally without writing its output file.
\<close>

definition faulty_host :: render_host where
  "faulty_host =
     \<lparr>abspath = (\<lambda>p. ''/srv/app/'' @ p),
      path_exists = (\<lambda>p. p \<noteq> ''/srv/app/topik-video/public/V4_Grammar_1700000000.mp4''),
      is_windows = False,
      subprocess_run = (\<lambda>cmd. if cmd ! 3 = ''TikTok-WritingCoach''
                               then Inl (CalledProcessError 1) else Inr ())\<rparr>"

text \<open>A renderer that raises for the second job and returns \<open>False\<close> for the fourth.\<close>

definition faulty_render :: "string \<Rightarrow> string \<Rightarrow> string \<Rightarrow> py_error + bool" where
  "faulty_render composition_id json_path output_path =
     (if composition_id = ''TikTok-WritingCoach'' then Inl (OtherException ''render crashed'')
      else if composition_id = ''TikTok-GrammarQuiz'' then Inr False
      else Inr True)"

section \<open>Facts about decimal literals\<close>

lemma digit_char_props:
  assumes "d < 10"
  shows "is_digit (digit_char d)" "digit_val (digit_char d) = d" "digit_char d \<noteq> CHR ''_''"
    "digit_char d \<noteq> CHR ''+''" "digit_char d \<noteq> CHR ''-''" "digit_char d \<noteq> CHR ''%''"
proof -
  from assms have "d \<in> {0, 1, 2, 3, 4, 5, 6, 7, 8, 9}" by auto
  then show "is_digit (digit_char d)" "digit_val (digit_char d) = d" "digit_char d \<noteq> CHR ''_''"
    "digit_char d \<noteq> CHR ''+''" "digit_char d \<noteq> CHR ''-''" "digit_char d \<noteq> CHR ''%''"
    by (auto simp: digit_char_def is_digit_def digit_val_def)
qed

lemma is_digit_not_special:
  assumes "is_digit c"
  shows "c \<noteq> CHR ''_''" "c \<noteq> CHR ''+''" "c \<noteq> CHR ''-''" "c \<noteq> CHR ''%''"
    "\<not> py_isspace (of_char c)"
  using assms by (auto simp: is_digit_def py_isspace_def)

lemma str_nat_digits: "c \<in> set (str_nat n) \<Longrightarrow> is_digit c"
proof (induction n rule: str_nat.induct)
  case (1 n)
  show ?case
  proof (cases "n < 10")
    case True
    with "1.prems" show ?thesis
      by (simp add: str_nat.simps [of n] digit_char_props)
  next
    case False
    with "1.prems" "1.IH" show ?thesis
      by (auto simp: str_nat.simps [of n] digit_char_props)
  qed
qed

lemma str_nat_nonempty: "str_nat n \<noteq> []"
  by (subst str_nat.simps) simp

lemma digits_value_snoc: "digits_value (ds @ [c]) = 10 * digits_value ds + digit_val c"
  by (simp add: digits_value_def)

lemma digits_value_str_nat: "digits_value (str_nat n) = n"
proof (induction n rule: str_nat.induct)
  case (1 n)
  show ?case
  proof (cases "n < 10")
    case True
    then show ?thesis
      by (simp add: str_nat.simps [of n] digits_value_def digit_char_props)
  next
    case False
    with "1.IH" show ?thesis
      by (simp add: str_nat.simps [of n] digits_value_snoc digit_char_props)
  qed
qed

lemma length_str_nat: "n < 10 ^ k \<Longrightarrow> 0 < k \<Longrightarrow> length (str_nat n) \<le> k"
proof (induction n arbitrary: k rule: str_nat.induct)
  case (1 n)
  show ?case
  proof (cases "n < 10")
    case True
    with "1.prems" show ?thesis
      by (simp add: str_nat.simps [of n])
  next
    case False
    from "1.prems" obtain j where k: "k = Suc j"
      by (cases k) auto
    have j: "0 < j"
    proof (rule ccontr)
      assume "\<not> 0 < j"
      then have "j = 0" by simp
      with "1.prems" k False show False by simp
    qed
    from "1.prems" k have "n div 10 < 10 ^ j"
      by (simp add: less_mult_imp_div_less mult.commute)
    with "1.IH" False j have "length (str_nat (n div 10)) \<le> j" by simp
    with False k show ?thesis
      by (simp add: str_nat.simps [of n])
  qed
qed

lemma dropWhile_digits:
  assumes "ds \<noteq> []" and "\<forall>c\<in>set ds. is_digit c"
  shows "dropWhile (\<lambda>c. py_isspace (of_char c)) ds = ds"
  using assms by (cases ds) (auto simp: is_digit_not_special)

lemma strip_str_signed_digits:
  assumes "ds \<noteq> []" and "\<forall>c\<in>set ds. is_digit c" and "\<forall>c\<in>set sg. \<not> py_isspace (of_char c)"
  shows "strip_str (sg @ ds) = sg @ ds"
proof -
  have hd: "dropWhile (\<lambda>c. py_isspace (of_char c)) (sg @ ds) = sg @ ds"
    using assms by (cases sg; cases ds) (auto simp: is_digit_not_special)
  have "rev (sg @ ds) = rev ds @ rev sg" by simp
  moreover have "rev ds \<noteq> []" "\<forall>c\<in>set (rev ds). is_digit c" using assms by auto
  ultimately have "dropWhile (\<lambda>c. py_isspace (of_char c)) (rev (sg @ ds)) = rev (sg @ ds)"
    by (cases "rev ds") (auto simp: is_digit_not_special)
  with hd show ?thesis by (simp add: strip_str_def)
qed

lemma digit_groups_digits:
  "ds \<noteq> [] \<Longrightarrow> \<forall>c\<in>set ds. is_digit c \<Longrightarrow> digit_groups ds"
  by (induction ds rule: digit_groups.induct) (auto simp: is_digit_not_special)

lemma remove_char_digits:
  "\<forall>c\<in>set ds. is_digit c \<Longrightarrow> remove_char CHR ''_'' ds = ds"
  "\<forall>c\<in>set ds. is_digit c \<Longrightarrow> remove_char CHR ''%'' ds = ds"
  by (auto simp: remove_char_def filter_id_conv is_digit_not_special)

lemma py_int_digits:
  assumes "ds \<noteq> []" and "\<forall>c\<in>set ds. is_digit c" and "length ds \<le> int_max_str_digits"
  shows "py_int ds = Inr (int (digits_value ds))"
    and "py_int (CHR ''-'' # ds) = Inr (- int (digits_value ds))"
    and "py_int (CHR ''+'' # ds) = Inr (int (digits_value ds))"
proof -
  from assms have d0: "is_digit (hd ds)" by (cases ds) auto
  have s0: "strip_str ds = ds"
    using strip_str_signed_digits [of ds "[]"] assms by simp
  have s1: "strip_str (CHR ''-'' # ds) = CHR ''-'' # ds"
    using strip_str_signed_digits [of ds "''-''"] assms by (simp add: py_isspace_def)
  have s2: "strip_str (CHR ''+'' # ds) = CHR ''+'' # ds"
    using strip_str_signed_digits [of ds "''+''"] assms by (simp add: py_isspace_def)
  from assms d0 have nosign: "\<not> startswith ds ''+''" "\<not> startswith ds ''-''"
    by (cases ds; auto simp: startswith_def is_digit_not_special)+
  show "py_int ds = Inr (int (digits_value ds))"
    using assms nosign by (simp add: py_int_def s0 digit_groups_digits remove_char_digits)
  show "py_int (CHR ''-'' # ds) = Inr (- int (digits_value ds))"
    using assms by (simp add: py_int_def s1 startswith_def digit_groups_digits remove_char_digits)
  show "py_int (CHR ''+'' # ds) = Inr (int (digits_value ds))"
    using assms by (simp add: py_int_def s2 startswith_def digit_groups_digits remove_char_digits)
qed

lemma tier_loop_thresholds: "tier_loop SSML_RATE_THRESHOLDS n = Inr (tier_bonus n)"
  by (simp add: SSML_RATE_THRESHOLDS_def tier_bonus_def py_int_def strip_str_def py_isspace_def
      startswith_def is_digit_def remove_char_def digits_value_def digit_val_def
      int_max_str_digits_def)

lemma remove_percent_shape:
  assumes "\<forall>c\<in>set ds. is_digit c" and "sg \<in> {'''', ''+'', ''-''}" and "pct \<in> {'''', ''%''}"
  shows "remove_char CHR ''%'' (sg @ ds @ pct) = sg @ ds"
  using assms by (auto simp: remove_char_def filter_id_conv is_digit_not_special)

lemma parse_base_rate_shape:
  assumes "ds \<noteq> []" and "\<forall>c\<in>set ds. is_digit c" and "length ds \<le> int_max_str_digits"
    and "sg \<in> {'''', ''+'', ''-''}" and "pct \<in> {'''', ''%''}"
  shows "parse_base_rate (sg @ ds @ pct) =
           Inr (if sg = ''-'' then - int (digits_value ds) else int (digits_value ds))"
proof -
  have clean: "remove_char CHR ''%'' (sg @ ds @ pct) = sg @ ds"
    using assms by (rule_tac remove_percent_shape) auto
  from assms have nosign: "\<not> startswith ds ''+''" "\<not> startswith ds ''-''"
    by (cases ds; auto simp: startswith_def is_digit_not_special)+
  have unf: "parse_base_rate (sg @ ds @ pct) =
      (if startswith (sg @ ds) ''+'' then py_int (tl (sg @ ds))
       else if startswith (sg @ ds) ''-'' then py_int (sg @ ds)
       else if sg @ ds \<noteq> [] then py_int (sg @ ds) else Inr 0)"
    by (simp only: parse_base_rate_def clean Let_def)
  from assms(4) consider "sg = ''''" | "sg = ''+''" | "sg = ''-''" by auto
  then show ?thesis
  proof cases
    case 1
    show ?thesis unfolding unf using 1 assms nosign
      by (simp add: py_int_digits)
  next
    case 2
    show ?thesis unfolding unf using 2 assms
      by (simp add: startswith_def py_int_digits)
  next
    case 3
    show ?thesis unfolding unf using 3 assms
      by (simp add: startswith_def py_int_digits)
  qed
qed

lemma strip_replicate:
  "\<not> py_isspace c \<Longrightarrow> strip (replicate n c) = replicate n c"
  by (cases n) (simp_all add: strip_def replicate_append_same [symmetric] del: replicate_Suc)

lemma parse_base_rate_empty:
  "parse_base_rate '''' = Inr 0" "parse_base_rate ''%'' = Inr 0"
  by (simp_all add: parse_base_rate_def remove_char_def startswith_def)

lemma int_max_str_digits_pos: "0 < int_max_str_digits"
  by (simp add: int_max_str_digits_def)

lemma str_nat_literal:
  assumes "n < 10 ^ int_max_str_digits"
  shows "str_nat n \<noteq> []" "\<forall>c\<in>set (str_nat n). is_digit c"
    "length (str_nat n) \<le> int_max_str_digits"
  using assms length_str_nat [of n int_max_str_digits] int_max_str_digits_pos
  by (auto simp: str_nat_nonempty str_nat_digits)

lemma parse_base_rate_format_rate:
  assumes "\<bar>b\<bar> < 10 ^ int_max_str_digits"
  shows "parse_base_rate (format_rate b) = Inr b"
proof (cases "b \<ge> 0")
  case True
  with assms have n: "nat b < 10 ^ int_max_str_digits"
    by (simp add: nat_less_iff)
  have "format_rate b = ''+'' @ str_nat (nat b) @ ''%''"
    using True by (simp add: format_rate_def str_int_def)
  with parse_base_rate_shape [of "str_nat (nat b)" "''+''" "''%''"] str_nat_literal [OF n] True
  show ?thesis by (simp add: digits_value_str_nat)
next
  case False
  with assms have n: "nat (- b) < 10 ^ int_max_str_digits"
    by (simp add: nat_less_iff)
  have "format_rate b = ''-'' @ str_nat (nat (- b)) @ ''%''"
    using False by (simp add: format_rate_def str_int_def)
  with parse_base_rate_shape [of "str_nat (nat (- b))" "''-''" "''%''"] str_nat_literal [OF n] False
  show ?thesis by (simp add: digits_value_str_nat)
qed

lemma small_rate_in_range:
  assumes "- 100 \<le> b" and "b \<le> (100::int)"
  shows "\<bar>b\<bar> < 10 ^ int_max_str_digits"
proof -
  have "(10::int) ^ 3 \<le> 10 ^ int_max_str_digits"
    by (rule power_increasing) (simp_all add: int_max_str_digits_def)
  with assms show ?thesis by simp
qed

lemma digit_groups_chars:
  "digit_groups body \<Longrightarrow> c \<in> set body \<Longrightarrow> is_digit c \<or> c = CHR ''_''"
  by (induction body rule: digit_groups.induct) (auto split: if_splits)

lemma set_dropWhile_keep: "c \<in> set xs \<Longrightarrow> \<not> P c \<Longrightarrow> c \<in> set (dropWhile P xs)"
  by (induction xs) auto

lemma strip_str_keeps:
  assumes "c \<in> set s" and "\<not> py_isspace (of_char c)"
  shows "c \<in> set (strip_str s)"
proof -
  from assms have "c \<in> set (rev (dropWhile (\<lambda>c. py_isspace (of_char c)) s))"
    by (simp add: set_dropWhile_keep)
  with assms(2) show ?thesis
    unfolding strip_str_def by (simp add: set_dropWhile_keep)
qed

lemma in_set_tl_unless_head:
  assumes "c \<in> set xs" and "startswith xs [h]" and "c \<noteq> h"
  shows "c \<in> set (tl xs)"
  using assms by (cases xs) (auto simp: startswith_def)

lemma py_int_bad_char:
  assumes "c \<in> set s" and "\<not> is_digit c" and "c \<noteq> CHR ''_''" and "c \<noteq> CHR ''+''"
    and "c \<noteq> CHR ''-''" and "\<not> py_isspace (of_char c)"
  shows "py_int s = Inl ValueError"
proof -
  define t where "t = strip_str s"
  define body where "body = (if startswith t ''+'' \<or> startswith t ''-'' then tl t else t)"
  from assms have ct: "c \<in> set t" by (simp add: t_def strip_str_keeps)
  have "c \<in> set body"
  proof (cases "startswith t ''+'' \<or> startswith t ''-''")
    case True
    with ct assms(4,5) have "c \<in> set (tl t)"
      by (auto intro: in_set_tl_unless_head)
    with True show ?thesis by (simp add: body_def)
  next
    case False
    with ct show ?thesis by (simp add: body_def)
  qed
  with assms(2,3) have "\<not> digit_groups body"
    by (auto dest: digit_groups_chars)
  then show ?thesis
    unfolding body_def t_def py_int_def Let_def by (simp split: if_splits)
qed

lemma parse_base_rate_bad_char:
  assumes "c \<in> set base_rate" and "\<not> is_digit c" and "c \<noteq> CHR ''_''" and "c \<noteq> CHR ''+''"
    and "c \<noteq> CHR ''-''" and "c \<noteq> CHR ''%''" and "\<not> py_isspace (of_char c)"
  shows "parse_base_rate base_rate = Inl ValueError"
proof -
  define clean where "clean = remove_char CHR ''%'' base_rate"
  from assms(1,6) have cc: "c \<in> set clean" by (simp add: clean_def remove_char_def)
  then have ne: "clean \<noteq> []" by auto
  have unf: "parse_base_rate base_rate =
      (if startswith clean ''+'' then py_int (tl clean)
       else if startswith clean ''-'' then py_int clean
       else if clean \<noteq> [] then py_int clean else Inr 0)"
    by (simp only: parse_base_rate_def clean_def Let_def)
  show ?thesis
  proof (cases "startswith clean ''+''")
    case True
    from cc True assms(4) have "c \<in> set (tl clean)" by (rule in_set_tl_unless_head)
    with assms have "py_int (tl clean) = Inl ValueError" by (intro py_int_bad_char)
    with True show ?thesis by (simp add: unf)
  next
    case False
    from cc assms have "py_int clean = Inl ValueError" by (intro py_int_bad_char)
    with False ne show ?thesis by (simp add: unf)
  qed
qed

lemma calculate_dynamic_rate_bad_char:
  assumes "c \<in> set base_rate" and "\<not> is_digit c" and "c \<noteq> CHR ''_''" and "c \<noteq> CHR ''+''"
    and "c \<noteq> CHR ''-''" and "c \<noteq> CHR ''%''" and "\<not> py_isspace (of_char c)"
  shows "calculate_dynamic_rate t base_rate = Inl ValueError"
  using parse_base_rate_bad_char [OF assms]
  by (simp add: calculate_dynamic_rate_def tier_loop_thresholds)

section \<open>Facts about rounding and synthesis\<close>

lemma py_round0_int [simp]: "py_round0 (of_int k) = k"
  by (simp add: py_round0_def)

lemma py_round0_cases:
  "py_round0 x = \<lfloor>x\<rfloor> \<and> x - of_int \<lfloor>x\<rfloor> \<le> 1 / 2
   \<or> py_round0 x = \<lfloor>x\<rfloor> + 1 \<and> 1 / 2 \<le> x - of_int \<lfloor>x\<rfloor>"
  by (simp add: py_round0_def Let_def)

lemma py_round0_bounds: "of_int (py_round0 x) \<le> x + 1 / 2" "x - 1 / 2 \<le> of_int (py_round0 x)"
proof -
  have fl: "of_int \<lfloor>x\<rfloor> \<le> x" "x < of_int \<lfloor>x\<rfloor> + 1" by linarith+
  from py_round0_cases [of x] fl show "of_int (py_round0 x) \<le> x + 1 / 2"
    by (elim disjE conjE; simp; linarith)
  from py_round0_cases [of x] fl show "x - 1 / 2 \<le> of_int (py_round0 x)"
    by (elim disjE conjE; simp; linarith)
qed

lemma py_round0_mono:
  assumes "x \<le> y"
  shows "py_round0 x \<le> py_round0 y"
proof (cases "\<lfloor>x\<rfloor> = \<lfloor>y\<rfloor>")
  case True
  with assms show ?thesis
    by (auto simp: py_round0_def Let_def)
next
  case False
  with assms have "\<lfloor>x\<rfloor> + 1 \<le> \<lfloor>y\<rfloor>"
    using floor_mono [OF assms] by linarith
  moreover have "py_round0 x \<le> \<lfloor>x\<rfloor> + 1" "\<lfloor>y\<rfloor> \<le> py_round0 y"
    by (auto simp: py_round0_def Let_def)
  ultimately show ?thesis by linarith
qed

lemma py_round_0: "py_round x 0 = of_int (py_round0 x)"
  by (simp add: py_round_def)

lemma py_round_3_above_int:
  assumes "of_int k \<le> x"
  shows "of_int k \<le> py_round x 3"
proof -
  from assms have "of_int (k * 1000) \<le> x * 1000" by simp
  then have "py_round0 (of_int (k * 1000)) \<le> py_round0 (x * 1000)"
    by (rule py_round0_mono)
  moreover have "py_round0 (of_int (k * 1000)) = k * 1000"
    by (rule py_round0_int)
  ultimately have "k * 1000 \<le> py_round0 (x * 1000)" by (simp only:)
  then have "(of_int (k * 1000) :: rat) \<le> of_int (py_round0 (x * 1000))"
    by (simp only: of_int_le_iff)
  then show ?thesis
    by (simp add: py_round_def le_divide_eq)
qed

lemma get_audio_duration_positive:
  "0 < get_audio_duration H file_path \<Longrightarrow> file_exists H file_path"
  by (auto simp: get_audio_duration_def split: if_splits)

lemma fallback_positive:
  "0 < fallback_edge_tts_sync H t voice_name output_path rate \<Longrightarrow> file_exists H output_path"
  by (auto simp: fallback_edge_tts_sync_def Let_def get_audio_duration_positive
      split: if_splits option.splits)

lemma generate_azure_tts_positive:
  assumes "generate_azure_tts H t voice_name output_path rate dyn = Inr (duration, reqs)"
    and "0 < duration"
  shows "file_exists H output_path"
  using assms
  by (auto simp: generate_azure_tts_def Let_def get_audio_duration_positive fallback_positive
      split: if_splits option.splits sum.splits azure_reason.splits)


lemma generate_working_host:
  assumes "strip t \<noteq> []"
  shows "generate_azure_tts (working_host L) t voice_name output_path rate dyn =
           (case synthesis_rate t rate dyn of
              Inl e \<Rightarrow> Inl e
            | Inr final_rate \<Rightarrow>
                Inr (L output_path,
                     [\<lparr>req_text = t, req_voice = voice_name, req_rate = final_rate\<rparr>]))"
proof -
  from assms have "t \<noteq> []" by (auto simp: strip_def)
  with assms show ?thesis
    by (simp add: generate_azure_tts_def working_host_def get_audio_duration_def
        split: sum.splits)
qed

lemma calculate_dynamic_rate_parsed:
  assumes "parse_base_rate rate = Inr b"
  shows "calculate_dynamic_rate t rate =
           Inr (format_rate (max (- 50) (min 50 (b + tier_bonus (length (strip t))))))"
  using assms by (simp add: calculate_dynamic_rate_def tier_loop_thresholds)

lemma parse_base_rate_examples:
  "parse_base_rate ''+0%'' = Inr 0" "parse_base_rate ''-5%'' = Inr (- 5)"
  "parse_base_rate ''-10%'' = Inr (- 10)" "parse_base_rate ''+15%'' = Inr 15"
  by (simp_all add: parse_base_rate_def remove_char_def startswith_def py_int_def strip_str_def
      py_isspace_def is_digit_def digits_value_def digit_val_def int_max_str_digits_def)

lemma format_rate_examples:
  "format_rate 0 = ''+0%''" "format_rate (- 5) = ''-5%''" "format_rate 15 = ''+15%''"
  "format_rate 30 = ''+30%''" "format_rate (- 10) = ''-10%''" "format_rate 5 = ''+5%''"
  "format_rate 25 = ''+25%''"
  by (simp_all add: format_rate_def str_int_def str_nat.simps digit_char_def)

lemma strip_greeting: "strip greeting = greeting" "greeting \<noteq> []" "length greeting = 5"
  by (simp_all add: strip_def greeting_def py_isspace_def)

lemma strip_syllables: "strip (syllables n) = syllables n" "length (syllables n) = n"
  by (simp_all add: syllables_def strip_replicate py_isspace_def)

lemma process_segment_step:
  assumes "process_segment H assets_dir st section_name ko_text vi_text voice_name rate = Inr st'"
  shows "(timestamps st' = timestamps st \<and> total_duration st' = total_duration st)
         \<or> (\<exists>d. 0 < d
               \<and> timestamps st' = timestamps st
                    @ [\<lparr>ts_section = section_name,
                         start_sec = py_round (total_duration st) 0,
                         ts_label = get_section_label section_name\<rparr>]
               \<and> total_duration st' = total_duration st + d + 1 / 2)"
proof (cases "ko_text = [] \<or> strip ko_text = []")
  case True
  with assms show ?thesis by (auto simp: process_segment_def)
next
  case False
  define seg_path where "seg_path = path_join assets_dir (''deep_'' @ str_nat (segment_idx st) @ ''.mp3'')"
  show ?thesis
  proof (cases "generate_azure_tts H ko_text voice_name seg_path rate True")
    case (Inl e)
    with assms False show ?thesis
      by (simp add: process_segment_def Let_def seg_path_def)
  next
    case (Inr r)
    obtain duration reqs where r: "r = (duration, reqs)" by (cases r)
    show ?thesis
    proof (cases "duration \<le> 0")
      case True
      with assms False Inr r show ?thesis
        by (auto simp: process_segment_def Let_def seg_path_def)
    next
      case pos: False
      then have "0 < duration" by simp
      with Inr r have ex: "file_exists H seg_path"
        by (auto dest: generate_azure_tts_positive)
      from assms False Inr r pos ex show ?thesis
        by (auto simp: process_segment_def Let_def seg_path_def split: sum.splits)
    qed
  qed
qed

lemma process_segment_invariant:
  assumes step: "process_segment H assets_dir st section_name ko_text vi_text voice_name rate = Inr st'"
    and srt: "sorted (map start_sec (timestamps st))"
    and le: "\<forall>t\<in>set (timestamps st). start_sec t \<le> of_int (py_round0 (total_duration st))"
    and lt: "\<forall>t\<in>set (timestamps st). start_sec t < total_duration st"
  shows "sorted (map start_sec (timestamps st'))"
    and "\<forall>t\<in>set (timestamps st'). start_sec t \<le> of_int (py_round0 (total_duration st'))"
    and "\<forall>t\<in>set (timestamps st'). start_sec t < total_duration st'"
proof -
  from process_segment_step [OF step]
  have "sorted (map start_sec (timestamps st'))
        \<and> (\<forall>t\<in>set (timestamps st'). start_sec t \<le> of_int (py_round0 (total_duration st')))
        \<and> (\<forall>t\<in>set (timestamps st'). start_sec t < total_duration st')"
  proof (elim disjE exE conjE)
    assume "timestamps st' = timestamps st" "total_duration st' = total_duration st"
    with srt le lt show ?thesis by simp
  next
    fix d :: rat
    assume d: "0 < d"
      and ts: "timestamps st' = timestamps st
                @ [\<lparr>ts_section = section_name, start_sec = py_round (total_duration st) 0,
                     ts_label = get_section_label section_name\<rparr>]"
      and tot: "total_duration st' = total_duration st + d + 1 / 2"
    have mono: "py_round0 (total_duration st) \<le> py_round0 (total_duration st')"
      using d tot by (intro py_round0_mono) simp
    then have mono': "(of_int (py_round0 (total_duration st)) :: rat)
                        \<le> of_int (py_round0 (total_duration st'))"
      by (simp only: of_int_le_iff)
    have new_lt: "of_int (py_round0 (total_duration st)) < total_duration st'"
      using py_round0_bounds(1) [of "total_duration st"] d tot by simp
    have "sorted (map start_sec (timestamps st'))"
      using srt le by (auto simp: ts sorted_append py_round_0)
    moreover have "\<forall>t\<in>set (timestamps st'). start_sec t \<le> of_int (py_round0 (total_duration st'))"
      using le mono' by (auto simp: ts py_round_0 intro: order_trans)
    moreover have "\<forall>t\<in>set (timestamps st'). start_sec t < total_duration st'"
      using lt new_lt d tot by (auto simp: ts py_round_0 intro: less_trans)
    ultimately show ?thesis by blast
  qed
  then show "sorted (map start_sec (timestamps st'))"
    and "\<forall>t\<in>set (timestamps st'). start_sec t \<le> of_int (py_round0 (total_duration st'))"
    and "\<forall>t\<in>set (timestamps st'). start_sec t < total_duration st'"
    by blast+
qed

lemma process_segments_invariant:
  assumes "process_segments H assets_dir calls st = Inr st'"
    and "sorted (map start_sec (timestamps st))"
    and "\<forall>t\<in>set (timestamps st). start_sec t \<le> of_int (py_round0 (total_duration st))"
    and "\<forall>t\<in>set (timestamps st). start_sec t < total_duration st"
  shows "sorted (map start_sec (timestamps st'))
         \<and> (\<forall>t\<in>set (timestamps st'). start_sec t < total_duration st')"
  using assms
proof (induction calls arbitrary: st)
  case Nil
  then show ?case by simp
next
  case (Cons c calls)
  obtain section_name ko_text vi_text voice_name rate
    where c: "c = (section_name, ko_text, vi_text, voice_name, rate)"
    by (cases c) auto
  from Cons.prems(1) c obtain st1
    where step: "process_segment H assets_dir st section_name ko_text vi_text voice_name rate = Inr st1"
      and rest: "process_segments H assets_dir calls st1 = Inr st'"
    by (auto split: sum.splits)
  from process_segment_invariant [OF step Cons.prems(2) Cons.prems(3) Cons.prems(4)] rest
  show ?case by (intro Cons.IH)
qed

lemma deep_dive_timestamps:
  assumes "build_video5_deep_dive H script assets_dir = Inr (res, st)"
  shows "dr_timestamps res = timestamps st"
    and "dr_total_duration res = py_round (total_duration st) 3"
    and "sorted (map start_sec (timestamps st))"
    and "\<forall>t\<in>set (timestamps st). start_sec t < total_duration st"
proof -
  show "dr_timestamps res = timestamps st"
    using assms
    by (auto simp: build_video5_deep_dive_def Let_def deep_init_def
        split: if_splits sum.splits)
  show "dr_total_duration res = py_round (total_duration st) 3"
    using assms
    by (auto simp: build_video5_deep_dive_def Let_def deep_init_def py_round_def py_round0_def
        split: if_splits sum.splits)
  have "sorted (map start_sec (timestamps st))
         \<and> (\<forall>t\<in>set (timestamps st). start_sec t < total_duration st)"
  proof (cases "script_is_empty script")
    case True
    with assms show ?thesis
      by (auto simp: build_video5_deep_dive_def deep_init_def)
  next
    case False
    with assms obtain st0
      where run: "process_segments H assets_dir (deep_dive_calls script) deep_init = Inr st0"
        and ts: "timestamps st = timestamps st0" and tot: "total_duration st = total_duration st0"
      by (auto simp: build_video5_deep_dive_def Let_def split: if_splits sum.splits)
    from process_segments_invariant [OF run] show ?thesis
      by (simp add: ts tot deep_init_def)
  qed
  then show "sorted (map start_sec (timestamps st))"
    and "\<forall>t\<in>set (timestamps st). start_sec t < total_duration st"
    by blast+
qed

lemma working_host_fields:
  "file_exists (working_host L) p" "pydub_from_file (working_host L) p = Inr 2000"
  "export_file (working_host L) a p = Inr ()" "get_audio_duration (working_host L) p = L p"
  "edge_segment (working_host L) t voice_name rate = Inr 1500"
  by (simp_all add: working_host_def get_audio_duration_def)

lemma deep_calls_two:
  "deep_dive_calls deep_script_two =
     [(u ''opening'', greeting, [], ''ko-KR-SunHiNeural'', ''-5%''),
      (u ''news'', syllables 20, [], ''ko-KR-SunHiNeural'', ''+0%'')]"
  by (simp add: deep_dive_calls_def opening_calls_def news_calls_def transition_calls_def
      exam_calls_def essay_calls_def vocab_calls_def closing_calls_def deep_script_two_def
      deep_script_one_def section_of_def get_or_def nonempty_values_def voice_of_def
      AZURE_VOICE_CONFIG_def space_def strip_def greeting_def py_isspace_def syllables_def)

lemma deep_calls_one:
  "deep_dive_calls deep_script_one =
     [(u ''opening'', greeting, [], ''ko-KR-SunHiNeural'', ''-5%'')]"
  by (simp add: deep_dive_calls_def opening_calls_def news_calls_def transition_calls_def
      exam_calls_def essay_calls_def vocab_calls_def closing_calls_def
      deep_script_one_def section_of_def get_or_def nonempty_values_def voice_of_def
      AZURE_VOICE_CONFIG_def space_def strip_def greeting_def py_isspace_def)

lemma floor_numeral_div: "\<lfloor>(numeral a :: rat) / numeral b\<rfloor> = numeral a div numeral b"
  using floor_divide_of_int_eq [of "numeral a" "numeral b", where ?'a = rat] by simp

lemma syllables_nonempty: "0 < n \<Longrightarrow> syllables n \<noteq> []"
  by (simp add: syllables_def)

lemma example_scripts_not_empty:
  "\<not> script_is_empty deep_script_one" "\<not> script_is_empty deep_script_two"
  by (simp_all add: script_is_empty_def deep_script_one_def deep_script_two_def)

lemmas deep_eval =
  process_segment_def generate_working_host strip_greeting strip_syllables synthesis_rate_def
  calculate_dynamic_rate_parsed parse_base_rate_examples tier_bonus_def format_rate_examples
  deep_init_def deep_lengths_def Let_def path_join_def startswith_def str_nat.simps
  digit_char_def py_round_def py_round0_def working_host_fields syllables_nonempty
  floor_numeral_div example_scripts_not_empty audio_len_def

lemma process_segment_integral:
  assumes "process_segment H assets_dir st section_name ko_text vi_text voice_name rate = Inr st'"
    and "\<forall>t\<in>set (timestamps st). \<exists>k. start_sec t = of_int k"
  shows "\<forall>t\<in>set (timestamps st'). \<exists>k. start_sec t = of_int k"
  using process_segment_step [OF assms(1)] assms(2)
  by (auto simp: py_round_0)

lemma process_segments_integral:
  assumes "process_segments H assets_dir calls st = Inr st'"
    and "\<forall>t\<in>set (timestamps st). \<exists>k. start_sec t = of_int k"
  shows "\<forall>t\<in>set (timestamps st'). \<exists>k. start_sec t = of_int k"
  using assms
proof (induction calls arbitrary: st)
  case Nil
  then show ?case by simp
next
  case (Cons c calls)
  obtain section_name ko_text vi_text voice_name rate
    where c: "c = (section_name, ko_text, vi_text, voice_name, rate)"
    by (cases c) auto
  from Cons.prems(1) c obtain st1
    where step: "process_segment H assets_dir st section_name ko_text vi_text voice_name rate = Inr st1"
      and rest: "process_segments H assets_dir calls st1 = Inr st'"
    by (auto split: sum.splits)
  from process_segment_integral [OF step Cons.prems(2)] rest
  show ?case by (intro Cons.IH)
qed

lemma deep_dive_integral:
  assumes "build_video5_deep_dive H script assets_dir = Inr (res, st)"
  shows "\<forall>t\<in>set (timestamps st). \<exists>k. start_sec t = of_int k"
proof (cases "script_is_empty script")
  case True
  with assms show ?thesis
    by (auto simp: build_video5_deep_dive_def deep_init_def)
next
  case False
  with assms obtain st0
    where run: "process_segments H assets_dir (deep_dive_calls script) deep_init = Inr st0"
      and ts: "timestamps st = timestamps st0"
    by (auto simp: build_video5_deep_dive_def Let_def split: if_splits sum.splits)
  from process_segments_integral [OF run] show ?thesis
    by (simp add: ts deep_init_def)
qed

lemma deep_two_example:
  "\<exists>res fin.
     build_video5_deep_dive (working_host (deep_lengths (7 / 10) 2 (371 / 100))) deep_script_two
       ''assets'' = Inr (res, fin)
     \<and> map start_sec (dr_timestamps res) = [0, 1] \<and> total_duration fin = 37 / 10
     \<and> map ds_duration (dr_segments res) = [7 / 10, 2] \<and> dr_total_duration res = 37 / 10"
  by (simp add: build_video5_deep_dive_def deep_calls_two deep_eval)

lemma py_round0_half: "py_round0 (1 / 2) = 0"
proof -
  have "\<lfloor>1 / 2 :: rat\<rfloor> = 0" by (rule floor_unique) simp_all
  then show ?thesis by (simp add: py_round0_def)
qed

lemma py_round_3_pos:
  assumes "0 < py_round d 3"
  shows "1 / 2000 < d"
proof (rule ccontr)
  assume "\<not> 1 / 2000 < d"
  then have "d * 1000 \<le> 1 / 2" by simp
  then have "py_round0 (d * 1000) \<le> py_round0 (1 / 2)" by (rule py_round0_mono)
  then have "py_round0 (d * 1000) \<le> 0" by (simp add: py_round0_half)
  then have "(of_int (py_round0 (d * 1000)) :: rat) \<le> 0" by simp
  then have "py_round d 3 \<le> 0" by (simp add: py_round_def divide_le_0_iff)
  with assms show False by simp
qed

lemma py_round_3_strict:
  assumes "of_int k \<le> T + 1 / 2" and "1 / 2000 < d"
  shows "of_int k < py_round (T + d + 1 / 2) 3"
proof -
  define y where "y = (T + d + 1 / 2) * 1000"
  from assms have "of_int (k * 1000) + 1 / 2 < y" by (simp add: y_def)
  with py_round0_bounds(2) [of y] have "of_int (k * 1000) < (of_int (py_round0 y) :: rat)"
    by linarith
  then have "k * 1000 < py_round0 y" by (simp only: of_int_less_iff)
  then have "k * 1000 + 1 \<le> py_round0 y" by simp
  then have "(of_int (k * 1000 + 1) :: rat) \<le> of_int (py_round0 y)" by (simp only: of_int_le_iff)
  then have "of_int k + 1 / 1000 \<le> (of_int (py_round0 y) :: rat) / 1000" by simp
  then show ?thesis by (simp add: py_round_def y_def)
qed

lemma process_segment_step2:
  assumes "process_segment H assets_dir st section_name ko_text vi_text voice_name rate = Inr st'"
  shows "(timestamps st' = timestamps st \<and> result_segments st' = result_segments st
          \<and> total_duration st' = total_duration st)
         \<or> (\<exists>d seg. 0 < d
               \<and> timestamps st' = timestamps st
                    @ [\<lparr>ts_section = section_name,
                         start_sec = py_round (total_duration st) 0,
                         ts_label = get_section_label section_name\<rparr>]
               \<and> result_segments st' = result_segments st @ [seg]
               \<and> ds_duration seg = py_round d 3
               \<and> total_duration st' = total_duration st + d + 1 / 2)"
proof (cases "ko_text = [] \<or> strip ko_text = []")
  case True
  with assms show ?thesis by (auto simp: process_segment_def)
next
  case False
  define seg_path where "seg_path = path_join assets_dir (''deep_'' @ str_nat (segment_idx st) @ ''.mp3'')"
  show ?thesis
  proof (cases "generate_azure_tts H ko_text voice_name seg_path rate True")
    case (Inl e)
    with assms False show ?thesis
      by (simp add: process_segment_def Let_def seg_path_def)
  next
    case (Inr r)
    obtain duration reqs where r: "r = (duration, reqs)" by (cases r)
    show ?thesis
    proof (cases "duration \<le> 0")
      case True
      with assms False Inr r show ?thesis
        by (auto simp: process_segment_def Let_def seg_path_def)
    next
      case pos: False
      then have "0 < duration" by simp
      with Inr r have ex: "file_exists H seg_path"
        by (auto dest: generate_azure_tts_positive)
      from assms False Inr r pos ex show ?thesis
        by (auto simp: process_segment_def Let_def seg_path_def split: sum.splits)
    qed
  qed
qed

lemma process_segment_last:
  assumes step: "process_segment H assets_dir st section_name ko_text vi_text voice_name rate = Inr st'"
    and inv: "timestamps st = []
              \<or> (\<exists>T d. 0 < d \<and> start_sec (last (timestamps st)) = of_int (py_round0 T)
                    \<and> result_segments st \<noteq> []
                    \<and> ds_duration (last (result_segments st)) = py_round d 3
                    \<and> total_duration st = T + d + 1 / 2)"
  shows "timestamps st' = []
         \<or> (\<exists>T d. 0 < d \<and> start_sec (last (timestamps st')) = of_int (py_round0 T)
               \<and> result_segments st' \<noteq> []
               \<and> ds_duration (last (result_segments st')) = py_round d 3
               \<and> total_duration st' = T + d + 1 / 2)"
  using process_segment_step2 [OF step]
proof (elim disjE exE conjE)
  assume "timestamps st' = timestamps st" "result_segments st' = result_segments st"
    "total_duration st' = total_duration st"
  with inv show ?thesis by simp
next
  fix d seg
  assume "0 < d"
    and "timestamps st' = timestamps st
           @ [\<lparr>ts_section = section_name, start_sec = py_round (total_duration st) 0,
                ts_label = get_section_label section_name\<rparr>]"
    and "result_segments st' = result_segments st @ [seg]"
    and "ds_duration seg = py_round d 3"
    and "total_duration st' = total_duration st + d + 1 / 2"
  then have "\<exists>T d. 0 < d \<and> start_sec (last (timestamps st')) = of_int (py_round0 T)
               \<and> result_segments st' \<noteq> []
               \<and> ds_duration (last (result_segments st')) = py_round d 3
               \<and> total_duration st' = T + d + 1 / 2"
    by (intro exI [of _ "total_duration st"] exI [of _ d]) (simp add: py_round_0)
  then show ?thesis ..
qed

lemma process_segments_last:
  assumes "process_segments H assets_dir calls st = Inr st'"
    and "timestamps st = []
         \<or> (\<exists>T d. 0 < d \<and> start_sec (last (timestamps st)) = of_int (py_round0 T)
               \<and> result_segments st \<noteq> []
               \<and> ds_duration (last (result_segments st)) = py_round d 3
               \<and> total_duration st = T + d + 1 / 2)"
  shows "timestamps st' = []
         \<or> (\<exists>T d. 0 < d \<and> start_sec (last (timestamps st')) = of_int (py_round0 T)
               \<and> result_segments st' \<noteq> []
               \<and> ds_duration (last (result_segments st')) = py_round d 3
               \<and> total_duration st' = T + d + 1 / 2)"
  using assms
proof (induction calls arbitrary: st)
  case Nil
  then show ?case by simp
next
  case (Cons c calls)
  obtain section_name ko_text vi_text voice_name rate
    where c: "c = (section_name, ko_text, vi_text, voice_name, rate)"
    by (cases c) auto
  from Cons.prems(1) c obtain st1
    where step: "process_segment H assets_dir st section_name ko_text vi_text voice_name rate = Inr st1"
      and rest: "process_segments H assets_dir calls st1 = Inr st'"
    by (auto split: sum.splits)
  from process_segment_last [OF step Cons.prems(2)] rest
  show ?case by (intro Cons.IH)
qed

lemma deep_dive_last_offset:
  assumes b: "build_video5_deep_dive H script assets_dir = Inr (res, st)"
    and ne: "dr_timestamps res \<noteq> []"
    and pos: "0 < ds_duration (last (dr_segments res))"
  shows "start_sec (last (dr_timestamps res)) < dr_total_duration res"
proof -
  have "dr_timestamps res = timestamps st \<and> dr_segments res = result_segments st
        \<and> dr_total_duration res = py_round (total_duration st) 3
        \<and> (timestamps st = []
            \<or> (\<exists>T d. 0 < d \<and> start_sec (last (timestamps st)) = of_int (py_round0 T)
                  \<and> result_segments st \<noteq> []
                  \<and> ds_duration (last (result_segments st)) = py_round d 3
                  \<and> total_duration st = T + d + 1 / 2))"
  proof (cases "script_is_empty script")
    case True
    with b show ?thesis
      by (auto simp: build_video5_deep_dive_def deep_init_def py_round_def py_round0_def)
  next
    case False
    with b obtain st0
      where run: "process_segments H assets_dir (deep_dive_calls script) deep_init = Inr st0"
        and eqs: "timestamps st = timestamps st0" "result_segments st = result_segments st0"
          "total_duration st = total_duration st0"
          "dr_timestamps res = timestamps st0" "dr_segments res = result_segments st0"
          "dr_total_duration res = py_round (total_duration st0) 3"
      by (auto simp: build_video5_deep_dive_def Let_def split: if_splits sum.splits)
    from process_segments_last [OF run] show ?thesis
      by (simp add: eqs deep_init_def)
  qed
  with ne obtain T d
    where ts: "dr_timestamps res = timestamps st" and sg: "dr_segments res = result_segments st"
      and tot: "dr_total_duration res = py_round (total_duration st) 3"
      and last: "start_sec (last (timestamps st)) = of_int (py_round0 T)"
      and dur: "ds_duration (last (result_segments st)) = py_round d 3"
      and sum: "total_duration st = T + d + 1 / 2"
    by auto
  from pos sg dur have "0 < py_round d 3" by simp
  then have "1 / 2000 < d" by (rule py_round_3_pos)
  with py_round0_bounds(1) [of T]
  have "of_int (py_round0 T) < py_round (T + d + 1 / 2) 3"
    by (intro py_round_3_strict)
  with ts tot last sum show ?thesis by simp
qed

section \<open>Facts about the render loop\<close>

lemma render_loop_partition:
  "render_loop render json_path timestamp manifest (rendered, failed) =
     (rendered @ map (\<lambda>e. video_path_of e timestamp)
        (filter (\<lambda>e. render (composition e) json_path (video_path_of e timestamp) = Inr True)
           manifest),
      failed @ map composition
        (filter (\<lambda>e. render (composition e) json_path (video_path_of e timestamp) \<noteq> Inr True)
           manifest))"
proof (induction manifest arbitrary: rendered failed)
  case Nil
  show ?case by simp
next
  case (Cons entry rest)
  show ?case
  proof (cases "render (composition entry) json_path (video_path_of entry timestamp)")
    case (Inl e)
    then show ?thesis by (simp add: Cons.IH)
  next
    case (Inr success)
    then show ?thesis by (cases success) (simp_all add: Cons.IH)
  qed
qed

lemma render_single_video_checked:
  assumes "render_single_video H composition_id json_path output_path"
  shows "path_exists H (abspath H output_path)"
    and "path_exists H (abspath H json_path)"
    and "subprocess_run H (render_cmd H composition_id (abspath H output_path) (abspath H json_path))
           = Inr ()"
  using assms
  by (auto simp: render_single_video_def Let_def split: if_splits sum.splits py_error.splits)

lemma render_all_videos_filter:
  "render_all_videos H json_path include_deep_dive timestamp =
     map (\<lambda>e. video_path_of e timestamp)
       (filter (\<lambda>e. render_single_video H (composition e) json_path (video_path_of e timestamp))
          (if include_deep_dive then VIDEO_MANIFEST else take 4 VIDEO_MANIFEST))"
  by (simp add: render_all_videos_def render_loop_partition Let_def)

lemma video_paths_example:
  "map (\<lambda>e. video_path_of e 1700000000) VIDEO_MANIFEST =
    [''topik-video/public/V1_News_1700000000.mp4'',
     ''topik-video/public/V2_Writing_1700000000.mp4'',
     ''topik-video/public/V3_Vocab_1700000000.mp4'',
     ''topik-video/public/V4_Grammar_1700000000.mp4'',
     ''topik-video/public/V5_DeepDive_1700000000.mp4'']"
  by (simp add: VIDEO_MANIFEST_def video_path_of_def path_join_def startswith_def str_int_def
      str_nat.simps digit_char_def)

lemma faulty_host_outcomes:
  "map (\<lambda>e. render_single_video faulty_host (composition e) ''final_data.json''
              (video_path_of e 1700000000)) VIDEO_MANIFEST
     = [True, False, True, False, True]"
proof -
  have paths: "map (\<lambda>e. (composition e, video_path_of e 1700000000)) VIDEO_MANIFEST =
    [(''TikTok-NewsHealing'', ''topik-video/public/V1_News_1700000000.mp4''),
     (''TikTok-WritingCoach'', ''topik-video/public/V2_Writing_1700000000.mp4''),
     (''TikTok-VocabQuiz'', ''topik-video/public/V3_Vocab_1700000000.mp4''),
     (''TikTok-GrammarQuiz'', ''topik-video/public/V4_Grammar_1700000000.mp4''),
     (''YouTube-DeepDive'', ''topik-video/public/V5_DeepDive_1700000000.mp4'')]"
    using video_paths_example by (simp add: VIDEO_MANIFEST_def)
  have "map (\<lambda>e. render_single_video faulty_host (composition e) ''final_data.json''
              (video_path_of e 1700000000)) VIDEO_MANIFEST
        = map (\<lambda>(c, p). render_single_video faulty_host c ''final_data.json'' p)
            (map (\<lambda>e. (composition e, video_path_of e 1700000000)) VIDEO_MANIFEST)"
    by (simp add: comp_def)
  also have "\<dots> = [True, False, True, False, True]"
    unfolding paths
    by (simp add: render_single_video_def faulty_host_def render_cmd_def)
  finally show ?thesis .
qed

section \<open>Facts about the builders\<close>





lemma voice_cfg_examples:
  "voice_cfg_of ''video_1'' = Inr \<lparr>cfg_voice = ''ko-KR-SunHiNeural'', cfg_rate = ''-10%'', cfg_role = ''news''\<rparr>"
  "voice_cfg_of ''video_3'' = Inr \<lparr>cfg_voice = ''ko-KR-InJoonNeural'', cfg_rate = ''+0%'', cfg_role = ''exam''\<rparr>"
  "voice_cfg_of ''video_4'' = Inr \<lparr>cfg_voice = ''ko-KR-InJoonNeural'', cfg_rate = ''+0%'', cfg_role = ''exam''\<rparr>"
  by (simp_all add: voice_cfg_of_def VOICE_CFG_def)

lemma synthesis_input_empty: "synthesis_input H [] = None"
  by (simp add: synthesis_input_def)













lemma strip_id:
  assumes "t \<noteq> []" and "\<not> py_isspace (hd t)" and "\<not> py_isspace (last t)"
  shows "strip t = t"
proof -
  from assms have a: "dropWhile py_isspace t = t" by (cases t) auto
  from assms have "rev t \<noteq> []" "\<not> py_isspace (hd (rev t))" by (simp_all add: hd_rev)
  then have "dropWhile py_isspace (rev t) = rev t" by (cases "rev t") auto
  with a show ?thesis by (simp add: strip_def)
qed








lemma syllables_ends: "0 < n \<Longrightarrow> hd (syllables n) = 44032" "0 < n \<Longrightarrow> last (syllables n) = 44032"
  by (cases n; simp add: syllables_def)+

lemmas builder_eval =
  opening_step_def closing_step_def quiz_block_def tts_to_segment_def generate_working_host
  working_host_fields synthesis_rate_def calculate_dynamic_rate_parsed parse_base_rate_examples
  tier_bonus_def format_rate_examples Let_def path_join_def startswith_def str_nat.simps
  digit_char_def py_round_def py_round0_def floor_numeral_div audio_len_def asm_init_def
  voice_cfg_examples news_base_rate_def should_compress_audio_def estimate_reading_time_def
  TIKTOK_COMPRESS_RATE_def TIKTOK_MAX_DURATION_def get_or_def space_def
  strip_id strip_syllables syllables_nonempty syllables_ends greeting_def closing_default_def
  quiz_closing_default_def answer_announce_of_def py_isspace_def QUIZ_SILENCE_MS_def
  video_num_of_def



lemma quiz_example:
  "\<exists>res st qb ab.
     build_quiz_audio (working_host (\<lambda>p. 2)) (quiz_script_of 12) ''assets'' ''video_3''
       = Inr (res, st)
     \<and> qr_ssml_compressed res = Some False
     \<and> qb = [Speech (syllables 10) ''ko-KR-InJoonNeural'' ''+0%'' 1500, Silent 300,
              Speech (syllables 3 @ [32, 32] @ syllables 4) ''ko-KR-InJoonNeural'' ''+0%'' 1500]
     \<and> ab = [Speech [51221, 45813, 51008, 32, 50, 51077, 45768, 45796, 46]
                ''ko-KR-InJoonNeural'' ''+0%'' 1500, Silent 300,
              Speech (syllables 12) ''ko-KR-InJoonNeural'' ''+0%'' 1500]
     \<and> exports st = [(''assets/v3_question.mp3'', qb), (''assets/v3_answer.mp3'', ab),
                      (''assets/v3_vocab_quiz.mp3'', combined_audio st)]
     \<and> combined_audio st =
         [FromFile ''assets/v3_opening.mp3'' 2000, Silent 300] @ qb @ [Silent 4000] @ ab
         @ [Silent 300, FromFile ''assets/v3_closing.mp3'' 2000]"
  by (simp add: build_quiz_audio_def quiz_script_of_def builder_eval)




text \<open>
  The news builder reports the duration re-read from its export (and so does the quiz
  builder, see \<open>build_quiz_audio_shape\<close>).
\<close>

lemma build_video1_news_total:
  assumes "build_video1_news H script assets_dir = Inr (res, st)"
    and "nr_combined_audio res \<noteq> None"
  shows "nr_total_duration res
           = py_round (get_audio_duration H (path_join assets_dir ''v1_news.mp3'')) 3"
  using assms
  unfolding build_video1_news_def voice_cfg_examples Let_def
  by (auto split: sum.splits prod.splits if_splits)

section \<open>Rate control: the claims\<close>

text \<open>
  C6.  For every text and every base rate written as a signed percentage with a value in
  \<open>[-100, 100]\<close>, \<open>_calculate_dynamic_rate\<close> returns the base value plus the bonus of
  the text's length tier (0, 10, 15, 20, 25 for at most 50, 150, 300, 500 and more
  characters), clamped to \<open>[-50, 50]\<close> and written as a signed percentage; so the result
  always denotes a value within \<open>[-50, 50]\<close>.
\<close>

theorem calculate_dynamic_rate_clamped:
  assumes "- 100 \<le> b" and "b \<le> 100"
  shows "calculate_dynamic_rate t (format_rate b) =
           Inr (format_rate (max (- 50) (min 50 (b + tier_bonus (length (strip t))))))
         \<and> (\<exists>v. - 50 \<le> v \<and> v \<le> 50 \<and> calculate_dynamic_rate t (format_rate b) = Inr (format_rate v))"
proof -
  from assms have "parse_base_rate (format_rate b) = Inr b"
    by (intro parse_base_rate_format_rate small_rate_in_range)
  then have eq: "calculate_dynamic_rate t (format_rate b) =
           Inr (format_rate (max (- 50) (min 50 (b + tier_bonus (length (strip t))))))"
    by (simp add: calculate_dynamic_rate_def tier_loop_thresholds)
  moreover have "- 50 \<le> max (- 50) (min 50 (b + tier_bonus (length (strip t))))"
    "max (- 50) (min 50 (b + tier_bonus (length (strip t)))) \<le> 50"
    by simp_all
  ultimately show ?thesis by blast
qed

text \<open>
  The example of the specification: base rate \<open>-10%\<close> and a text of 200 Korean
  syllables (tier bonus 15) give \<open>+5%\<close>.
\<close>

theorem calculate_dynamic_rate_clamped_witness:
  "- 100 \<le> (- 10 :: int) \<and> (- 10 :: int) \<le> 100
   \<and> calculate_dynamic_rate (replicate 200 44032) ''-10%'' = Inr ''+5%''"
  using calculate_dynamic_rate_clamped [of "- 10" "replicate 200 44032"]
  by (simp add: format_rate_def str_int_def str_nat.simps digit_char_def strip_replicate
      py_isspace_def tier_bonus_def)

text \<open>
  C7 claims that \<open>_calculate_dynamic_rate\<close> never raises and treats a malformed base
  rate as 0.  The code converts the base rate with \<open>int(...)\<close> outside any handler, so a
  base rate that is not a number raises \<open>ValueError\<close>: here the base rate \<open>fast\<close>.
\<close>

theorem calculate_dynamic_rate_malformed_raises:
  "calculate_dynamic_rate (u ''abc'') ''fast'' = Inl ValueError"
  by (simp add: calculate_dynamic_rate_def tier_loop_thresholds parse_base_rate_def
      remove_char_def startswith_def py_int_def strip_str_def py_isspace_def is_digit_def)

text \<open>
  C7, as the code has it.  For every text, \<open>_calculate_dynamic_rate\<close> returns without
  raising when the base rate is a decimal integer of at most \<open>int_max_str_digits\<close>
  (4300) digits with an optional sign and an optional percent sign: the result is the signed
  value plus the tier bonus, clamped and written as a signed percentage.  It also returns
  when the base rate is empty or just a percent sign; the base value is then 0.  Every
  base rate that contains a character other than a decimal digit, a sign, an underscore,
  a percent sign or white space makes the call raise \<open>ValueError\<close>, whatever the
  text, instead of being read as 0.
\<close>

theorem calculate_dynamic_rate_wellformed:
  "(ds \<noteq> [] \<and> list_all is_digit ds \<and> length ds \<le> int_max_str_digits
      \<and> sg \<in> {'''', ''+'', ''-''} \<and> pct \<in> {'''', ''%''} \<longrightarrow>
      calculate_dynamic_rate t (sg @ ds @ pct) =
        Inr (format_rate (max (- 50) (min 50
               ((if sg = ''-'' then - int (digits_value ds) else int (digits_value ds))
                + tier_bonus (length (strip t)))))))
   \<and> (pct \<in> {'''', ''%''} \<longrightarrow>
        calculate_dynamic_rate t pct =
          Inr (format_rate (max (- 50) (min 50 (0 + tier_bonus (length (strip t)))))))
   \<and> (c \<in> set base_rate \<and> \<not> is_digit c \<and> c \<notin> {CHR ''+'', CHR ''-'', CHR ''_'', CHR ''%''}
        \<and> \<not> py_isspace (of_char c) \<longrightarrow>
        calculate_dynamic_rate t base_rate = Inl ValueError)"
proof (intro conjI impI)
  assume a: "ds \<noteq> [] \<and> list_all is_digit ds \<and> length ds \<le> int_max_str_digits
      \<and> sg \<in> {'''', ''+'', ''-''} \<and> pct \<in> {'''', ''%''}"
  then have "\<forall>c\<in>set ds. is_digit c" by (simp add: list_all_iff)
  with a have "parse_base_rate (sg @ ds @ pct) =
      Inr (if sg = ''-'' then - int (digits_value ds) else int (digits_value ds))"
    by (intro parse_base_rate_shape) simp_all
  then show "calculate_dynamic_rate t (sg @ ds @ pct) =
        Inr (format_rate (max (- 50) (min 50
               ((if sg = ''-'' then - int (digits_value ds) else int (digits_value ds))
                + tier_bonus (length (strip t))))))"
    by (simp add: calculate_dynamic_rate_def tier_loop_thresholds)
next
  assume "pct \<in> {'''', ''%''}"
  then have "parse_base_rate pct = Inr 0"
    by (auto simp: parse_base_rate_empty)
  then show "calculate_dynamic_rate t pct =
          Inr (format_rate (max (- 50) (min 50 (0 + tier_bonus (length (strip t))))))"
    by (simp add: calculate_dynamic_rate_def tier_loop_thresholds)
next
  assume "c \<in> set base_rate \<and> \<not> is_digit c \<and> c \<notin> {CHR ''+'', CHR ''-'', CHR ''_'', CHR ''%''}
        \<and> \<not> py_isspace (of_char c)"
  then show "calculate_dynamic_rate t base_rate = Inl ValueError"
    by (intro calculate_dynamic_rate_bad_char [of c]) simp_all
qed

text \<open>
  The base rate \<open>-10%\<close> and a text of 200 syllables give \<open>+5%\<close>, the base rate \<open>%\<close>
  gives \<open>+15%\<close>, and the base rate \<open>+12.5%\<close> raises because of its decimal point.
\<close>

theorem calculate_dynamic_rate_wellformed_witness:
  "''10'' \<noteq> [] \<and> list_all is_digit ''10'' \<and> length ''10'' \<le> int_max_str_digits
   \<and> ''-'' \<in> {'''', ''+'', ''-''} \<and> ''%'' \<in> {'''', ''%''}
   \<and> calculate_dynamic_rate (replicate 200 44032) ''-10%'' = Inr ''+5%''
   \<and> calculate_dynamic_rate (replicate 200 44032) ''%'' = Inr ''+15%''
   \<and> CHR ''.'' \<in> set ''+12.5%'' \<and> \<not> is_digit CHR ''.''
   \<and> CHR ''.'' \<notin> {CHR ''+'', CHR ''-'', CHR ''_'', CHR ''%''}
   \<and> \<not> py_isspace (of_char CHR ''.'')
   \<and> calculate_dynamic_rate (replicate 200 44032) ''+12.5%'' = Inl ValueError"
  using calculate_dynamic_rate_wellformed
          [where ds = "''10''" and sg = "''-''" and pct = "''%''" and t = "replicate 200 44032"
             and c = "CHR ''.''" and base_rate = "''+12.5%''"]
  by (simp add: format_rate_def str_int_def str_nat.simps digit_char_def strip_replicate
      py_isspace_def tier_bonus_def is_digit_def int_max_str_digits_def digits_value_def
      digit_val_def)

text \<open>
  C8.  \<open>should_compress_audio\<close> returns \<open>(True, "+15%")\<close> exactly when the stripped
  character count divided by 5 characters per second is strictly above the budget, and
  \<open>(False, "+0%")\<close> otherwise; the empty text never triggers compression, under the
  default budget of 55 seconds and under any budget that is not negative.
\<close>

theorem should_compress_audio_threshold:
  "should_compress_audio t target_max =
     Inr (if of_nat (length (strip t)) / 5 > target_max then (True, ''+15%'') else (False, ''+0%''))
   \<and> should_compress_audio [] TIKTOK_MAX_DURATION = Inr (False, ''+0%'')
   \<and> (0 \<le> target_max \<longrightarrow> should_compress_audio [] target_max = Inr (False, ''+0%''))"
  by (simp add: should_compress_audio_def estimate_reading_time_def TIKTOK_COMPRESS_RATE_def
      TIKTOK_MAX_DURATION_def strip_def)

text \<open>276 syllables read in 55.2 seconds and trigger compression; 275 do not.\<close>

theorem should_compress_audio_threshold_witness:
  "should_compress_audio (replicate 276 44032) 55 = Inr (True, ''+15%'')
   \<and> should_compress_audio (replicate 275 44032) 55 = Inr (False, ''+0%'')
   \<and> (0::rat) \<le> 55 \<and> should_compress_audio [] 55 = Inr (False, ''+0%'')"
  using should_compress_audio_threshold [of "replicate 276 44032" 55]
    should_compress_audio_threshold [of "replicate 275 44032" 55]
    should_compress_audio_threshold [of "[]" 55]
  by (simp add: strip_replicate py_isspace_def)

section \<open>Duration measurement: the claims\<close>

text \<open>
  C9 claims that when the duration metadata of a synthesized file cannot be read, the
  duration is estimated from the file size and flagged as low-confidence instead of
  reporting failure.  \<open>get_audio_duration\<close> returns \<open>0.0\<close> in its exception handler, the
  same value it returns for a missing file, and returns a bare number: on a host where
  the primary engine completes and the file exists but its metadata is unreadable, the
  duration is \<open>0\<close> and \<open>generate_azure_tts\<close> returns \<open>0\<close>, which its callers treat as a
  failed synthesis.
\<close>

theorem get_audio_duration_unreadable_is_zero:
  "get_audio_duration unreadable_host ''assets/v1_opening.mp3'' = 0
   \<and> file_exists unreadable_host ''assets/v1_opening.mp3''
   \<and> generate_azure_tts unreadable_host greeting ''ko-KR-SunHiNeural''
         ''assets/v1_opening.mp3'' ''+0%'' False
       = Inr (0, [\<lparr>req_text = greeting, req_voice = ''ko-KR-SunHiNeural'', req_rate = ''+0%''\<rparr>])"
  by (simp add: get_audio_duration_def generate_azure_tts_def unreadable_host_def
      working_host_def greeting_def synthesis_rate_def strip_def py_isspace_def)

text \<open>
  C9, as the code has it.  When reading the duration metadata of an existing file fails
  (mutagen raises, or pydub raises when mutagen is not installed),
  \<open>get_audio_duration\<close> returns \<open>0.0\<close>, and every call of \<open>generate_azure_tts\<close> that
  writes to that file returns \<open>0.0\<close>, the value that stands for a failed synthesis.
\<close>

theorem get_audio_duration_read_failure:
  assumes "file_exists H file_path"
    and "if MUTAGEN_AVAILABLE H then mutagen_length H file_path = Inl e
         else pydub_from_file H file_path = Inl e"
  shows "get_audio_duration H file_path = 0
         \<and> (\<forall>duration reqs.
               generate_azure_tts H t voice_name file_path rate dyn = Inr (duration, reqs)
               \<longrightarrow> duration = 0)"
proof -
  from assms have zero: "get_audio_duration H file_path = 0"
    by (auto simp: get_audio_duration_def split: if_splits)
  then have "fallback_edge_tts_sync H t' voice_name file_path r = 0" for t' r
    by (simp add: fallback_edge_tts_sync_def Let_def split: option.splits)
  with zero show ?thesis
    by (auto simp: generate_azure_tts_def Let_def
        split: if_splits option.splits sum.splits azure_reason.splits)
qed

theorem get_audio_duration_read_failure_witness:
  "file_exists unreadable_host ''assets/v1_opening.mp3''
   \<and> MUTAGEN_AVAILABLE unreadable_host
   \<and> mutagen_length unreadable_host ''assets/v1_opening.mp3''
       = Inl (OtherException ''HeaderNotFoundError'')
   \<and> get_audio_duration unreadable_host ''assets/v1_opening.mp3'' = 0"
  using get_audio_duration_read_failure
          [where H = unreadable_host and file_path = "''assets/v1_opening.mp3''"
             and e = "OtherException ''HeaderNotFoundError''"]
  by (simp add: unreadable_host_def working_host_def)

section \<open>Render orchestration: the claims\<close>

text \<open>
  C1 claims that \<open>render_all_videos\<close> returns both the succeeded jobs and the failed job
  ids.  The function returns the list \<open>rendered\<close> only.  On the five-job manifest, with
  the second and the fourth job failing, the value returned is the list of the three
  output paths of jobs 1, 3 and 5; it has no second component and holds no failed
  composition id.
\<close>

theorem render_all_videos_returns_paths_only:
  "render_all_videos faulty_host ''final_data.json'' True 1700000000 =
     [''topik-video/public/V1_News_1700000000.mp4'',
      ''topik-video/public/V3_Vocab_1700000000.mp4'',
      ''topik-video/public/V5_DeepDive_1700000000.mp4'']
   \<and> ''TikTok-WritingCoach'' \<notin> set (render_all_videos faulty_host ''final_data.json'' True 1700000000)
   \<and> ''TikTok-GrammarQuiz'' \<notin> set (render_all_videos faulty_host ''final_data.json'' True 1700000000)"
proof -
  have "render_all_videos faulty_host ''final_data.json'' True 1700000000 =
     map fst (filter snd (zip (map (\<lambda>e. video_path_of e 1700000000) VIDEO_MANIFEST)
       (map (\<lambda>e. render_single_video faulty_host (composition e) ''final_data.json''
                    (video_path_of e 1700000000)) VIDEO_MANIFEST)))"
    by (simp add: render_all_videos_filter VIDEO_MANIFEST_def)
  then have "render_all_videos faulty_host ''final_data.json'' True 1700000000 =
     [''topik-video/public/V1_News_1700000000.mp4'',
      ''topik-video/public/V3_Vocab_1700000000.mp4'',
      ''topik-video/public/V5_DeepDive_1700000000.mp4'']"
    by (simp add: video_paths_example faulty_host_outcomes)
  then show ?thesis by simp
qed

text \<open>
  C1, as the code has it.  For every manifest and every single-job renderer, the loop
  ends with \<open>rendered\<close> holding the output paths of exactly the jobs whose render returned
  \<open>True\<close>, in manifest order, and \<open>failed\<close> holding the composition ids of exactly the
  other jobs (render returned \<open>False\<close> or raised), in manifest order: a failure is
  recorded for its own job and the loop goes on.  No exception of a job leaves the loop.
  \<open>render_all_videos\<close> returns the first list; the second is only logged.
\<close>

theorem render_loop_isolates_failures:
  "render_loop render json_path timestamp manifest ([], []) =
     (map (\<lambda>e. video_path_of e timestamp)
        (filter (\<lambda>e. render (composition e) json_path (video_path_of e timestamp) = Inr True)
           manifest),
      map composition
        (filter (\<lambda>e. render (composition e) json_path (video_path_of e timestamp) \<noteq> Inr True)
           manifest))
   \<and> render_all_videos H json_path include_deep_dive timestamp =
     map (\<lambda>e. video_path_of e timestamp)
       (filter (\<lambda>e. render_single_video H (composition e) json_path (video_path_of e timestamp))
          (if include_deep_dive then VIDEO_MANIFEST else take 4 VIDEO_MANIFEST))"
  by (simp add: render_loop_partition render_all_videos_filter)

text \<open>
  The five-job example: job 2 raises and job 4 returns \<open>False\<close>; the loop ends with the
  paths of jobs 1, 3, 5 in \<open>rendered\<close> and the ids of jobs 2, 4 in \<open>failed\<close>.
\<close>

theorem render_loop_isolates_failures_witness:
  "render_loop faulty_render ''final_data.json'' 1700000000 VIDEO_MANIFEST ([], []) =
     ([''topik-video/public/V1_News_1700000000.mp4'',
       ''topik-video/public/V3_Vocab_1700000000.mp4'',
       ''topik-video/public/V5_DeepDive_1700000000.mp4''],
      [''TikTok-WritingCoach'', ''TikTok-GrammarQuiz''])"
proof -
  show ?thesis
    using render_loop_isolates_failures
            [where render = faulty_render and json_path = "''final_data.json''"
               and timestamp = 1700000000 and manifest = VIDEO_MANIFEST]
          video_paths_example
    by (simp add: VIDEO_MANIFEST_def faulty_render_def)
qed

text \<open>
  C10.  Each manifest entry yields exactly one outcome: the succeeded paths and the failed
  composition ids together are as many as the manifest entries.  Every path that
  \<open>render_all_videos\<close> returns is the output path of a manifest entry, and
  \<open>render_single_video\<close> found that file to exist after the render.
\<close>

theorem render_all_one_outcome_per_job:
  "length (fst (render_loop render json_path timestamp manifest ([], [])))
     + length (snd (render_loop render json_path timestamp manifest ([], []))) = length manifest
   \<and> (\<forall>p \<in> set (render_all_videos H json_path include_deep_dive timestamp).
         path_exists H (abspath H p)
         \<and> (\<exists>e \<in> set VIDEO_MANIFEST. p = video_path_of e timestamp))"
proof -
  have "length (filter (\<lambda>e. render (composition e) json_path (video_path_of e timestamp) = Inr True) manifest)
        + length (filter (\<lambda>e. render (composition e) json_path (video_path_of e timestamp) \<noteq> Inr True) manifest)
        = length manifest"
    by (rule sum_length_filter_compl)
  then have count: "length (fst (render_loop render json_path timestamp manifest ([], [])))
     + length (snd (render_loop render json_path timestamp manifest ([], []))) = length manifest"
    by (simp add: render_loop_partition)
  have "path_exists H (abspath H p) \<and> (\<exists>e \<in> set VIDEO_MANIFEST. p = video_path_of e timestamp)"
    if "p \<in> set (render_all_videos H json_path include_deep_dive timestamp)" for p
  proof -
    from that obtain e where e: "e \<in> set (if include_deep_dive then VIDEO_MANIFEST else take 4 VIDEO_MANIFEST)"
      and p: "p = video_path_of e timestamp"
      and ok: "render_single_video H (composition e) json_path (video_path_of e timestamp)"
      by (auto simp: render_all_videos_filter)
    from e have "e \<in> set VIDEO_MANIFEST"
      by (auto dest: in_set_takeD split: if_splits)
    with render_single_video_checked(1) [OF ok] p show ?thesis by blast
  qed
  with count show ?thesis by blast
qed

theorem render_all_one_outcome_per_job_witness:
  "length (fst (render_loop faulty_render ''final_data.json'' 1700000000 VIDEO_MANIFEST ([], [])))
     + length (snd (render_loop faulty_render ''final_data.json'' 1700000000 VIDEO_MANIFEST ([], [])))
     = 5
   \<and> ''topik-video/public/V3_Vocab_1700000000.mp4''
        \<in> set (render_all_videos faulty_host ''final_data.json'' True 1700000000)
   \<and> path_exists faulty_host (abspath faulty_host ''topik-video/public/V3_Vocab_1700000000.mp4'')"
proof -
  have mem: "''topik-video/public/V3_Vocab_1700000000.mp4''
        \<in> set (render_all_videos faulty_host ''final_data.json'' True 1700000000)"
  proof -
    have "render_all_videos faulty_host ''final_data.json'' True 1700000000 =
       map fst (filter snd (zip (map (\<lambda>e. video_path_of e 1700000000) VIDEO_MANIFEST)
         (map (\<lambda>e. render_single_video faulty_host (composition e) ''final_data.json''
                      (video_path_of e 1700000000)) VIDEO_MANIFEST)))"
      by (simp add: render_all_videos_filter VIDEO_MANIFEST_def)
    then show ?thesis
      by (simp add: video_paths_example faulty_host_outcomes)
  qed
  from render_all_one_outcome_per_job
         [where render = faulty_render and json_path = "''final_data.json''"
            and timestamp = 1700000000 and manifest = VIDEO_MANIFEST and H = faulty_host
            and include_deep_dive = True]
  have "length (fst (render_loop faulty_render ''final_data.json'' 1700000000 VIDEO_MANIFEST ([], [])))
     + length (snd (render_loop faulty_render ''final_data.json'' 1700000000 VIDEO_MANIFEST ([], [])))
     = length VIDEO_MANIFEST"
    and "\<forall>p \<in> set (render_all_videos faulty_host ''final_data.json'' True 1700000000).
         path_exists faulty_host (abspath faulty_host p)"
    by blast+
  with mem show ?thesis
    by (simp add: VIDEO_MANIFEST_def)
qed

section \<open>The long-form variant: the claims\<close>

text \<open>
  C5 claims that each timestamp's start offset is the running offset accumulated before
  its segment was appended.  The code records \<open>round(total_duration, 0)\<close>: the opening
  segment lasts 0.7 s and is followed by the pause of 0.5 s, so the running offset before
  the news segment is 1.2 s, and the timestamp of the news segment is 1.
\<close>

theorem deep_dive_offsets_rounded:
  "\<exists>st1 st2.
      process_segment (working_host (deep_lengths (7 / 10) 2 (371 / 100))) ''assets'' deep_init
        (u ''opening'') greeting [] ''ko-KR-SunHiNeural'' ''-5%'' = Inr st1
      \<and> total_duration st1 = 6 / 5
      \<and> process_segment (working_host (deep_lengths (7 / 10) 2 (371 / 100))) ''assets'' st1
          (u ''news'') (syllables 20) [] ''ko-KR-SunHiNeural'' ''+0%'' = Inr st2
      \<and> map start_sec (timestamps st2) = [0, 1]"
  by (simp add: deep_eval)

text \<open>
  C5, as the code has it.  A call of \<open>process_segment\<close> that returns either leaves the
  timestamps alone or appends one whose start offset is the running offset before the
  segment, rounded to whole seconds.  For every long-form variant that is assembled, the
  start offsets are non-decreasing in assembly order; the last offset is strictly below
  the running offset reached after the last segment, and strictly below the total
  duration that the builder reports whenever the duration recorded for the last segment
  (rounded to milliseconds) is positive.
\<close>

theorem deep_dive_timestamps_ordered:
  "(process_segment H assets_dir st section_name ko_text vi_text voice_name rate = Inr st' \<longrightarrow>
      timestamps st' = timestamps st
      \<or> timestamps st' = timestamps st
           @ [\<lparr>ts_section = section_name, start_sec = py_round (total_duration st) 0,
                ts_label = get_section_label section_name\<rparr>])
   \<and> (build_video5_deep_dive H script assets_dir = Inr (res, fin) \<longrightarrow>
        sorted (map start_sec (dr_timestamps res))
        \<and> (dr_timestamps res \<noteq> [] \<longrightarrow>
              start_sec (last (dr_timestamps res)) < total_duration fin
              \<and> (0 < ds_duration (last (dr_segments res)) \<longrightarrow>
                    start_sec (last (dr_timestamps res)) < dr_total_duration res)))"
proof (intro conjI impI)
  assume "process_segment H assets_dir st section_name ko_text vi_text voice_name rate = Inr st'"
  from process_segment_step [OF this]
  show "timestamps st' = timestamps st
      \<or> timestamps st' = timestamps st
           @ [\<lparr>ts_section = section_name, start_sec = py_round (total_duration st) 0,
                ts_label = get_section_label section_name\<rparr>]"
    by blast
next
  assume b: "build_video5_deep_dive H script assets_dir = Inr (res, fin)"
  from deep_dive_timestamps [OF b]
  show "sorted (map start_sec (dr_timestamps res))"
    by simp
  assume ne: "dr_timestamps res \<noteq> []"
  then have mem: "last (dr_timestamps res) \<in> set (timestamps fin)"
    using deep_dive_timestamps(1) [OF b] by (metis last_in_set)
  with deep_dive_timestamps(4) [OF b]
  show "start_sec (last (dr_timestamps res)) < total_duration fin"
    by blast
  assume "0 < ds_duration (last (dr_segments res))"
  with b ne show "start_sec (last (dr_timestamps res)) < dr_total_duration res"
    by (rule deep_dive_last_offset)
qed

text \<open>
  An episode of two segments of 0.7 s and 2 s: the offsets are 0 and 1, the last segment
  is recorded with 2 s, and the total reported is 3.7 s.
\<close>

theorem deep_dive_timestamps_ordered_witness:
  "\<exists>res fin.
     build_video5_deep_dive (working_host (deep_lengths (7 / 10) 2 (371 / 100))) deep_script_two
       ''assets'' = Inr (res, fin)
     \<and> map start_sec (dr_timestamps res) = [0, 1]
     \<and> map ds_duration (dr_segments res) = [7 / 10, 2]
     \<and> dr_total_duration res = 37 / 10
     \<and> sorted (map start_sec (dr_timestamps res))
     \<and> start_sec (last (dr_timestamps res)) < total_duration fin
     \<and> start_sec (last (dr_timestamps res)) < dr_total_duration res"
proof -
  from deep_two_example obtain res fin
    where b: "build_video5_deep_dive (working_host (deep_lengths (7 / 10) 2 (371 / 100)))
                deep_script_two ''assets'' = Inr (res, fin)"
      and ts: "map start_sec (dr_timestamps res) = [0, 1]"
      and ds: "map ds_duration (dr_segments res) = [7 / 10, 2]"
      and tot: "dr_total_duration res = 37 / 10"
    by auto
  from ts have ne: "dr_timestamps res \<noteq> []" by auto
  from ds have "dr_segments res \<noteq> []" by auto
  then have "ds_duration (last (dr_segments res)) = last (map ds_duration (dr_segments res))"
    by (simp add: last_map)
  with ds have pos: "0 < ds_duration (last (dr_segments res))" by simp
  from deep_dive_timestamps_ordered
         [where H = "working_host (deep_lengths (7 / 10) 2 (371 / 100))"
            and script = deep_script_two and assets_dir = "''assets''" and res = res
            and fin = fin] b ne pos
  have "sorted (map start_sec (dr_timestamps res))"
    and "start_sec (last (dr_timestamps res)) < total_duration fin"
    and "start_sec (last (dr_timestamps res)) < dr_total_duration res"
    by blast+
  with b ts ds tot show ?thesis
    by (intro exI [of _ res] exI [of _ fin]) simp
qed

text \<open>
  C2 holds for the news and quiz builders (\<open>build_video1_news_total\<close>,
  \<open>build_quiz_audio_shape\<close>), which re-read their export, rounded to milliseconds, and
  fails for the long-form builder.  An episode with one segment of 2 s: the combined audio (the segment and its pause of 0.5 s) is exported
  to \<open>v5_deep_dive.mp3\<close>; re-reading that file would give 2.55 s, and the builder reports
  2.5 s, the sum of the segment duration and the pause.
\<close>

theorem deep_dive_total_is_sum:
  "\<exists>res st.
     build_video5_deep_dive (working_host (deep_lengths 2 2 (51 / 20))) deep_script_one ''assets''
       = Inr (res, st)
     \<and> exports st = [(''assets/v5_deep_dive.mp3'',
                       [FromFile ''assets/deep_0.mp3'' 2000, Silent 500])]
     \<and> get_audio_duration (working_host (deep_lengths 2 2 (51 / 20))) ''assets/v5_deep_dive.mp3''
         = 51 / 20
     \<and> dr_total_duration res = 5 / 2"
  by (simp add: build_video5_deep_dive_def deep_calls_one deep_eval)

section \<open>The short-form builders: the claims\<close>






end
